theory Spec2Isabelle
  imports Complex_Main "HOL-Library.AList" "HOL-Library.Multiset" "HOL-Library.Word"
begin

section \<open>Values of the JavaScript runtime\<close>

text \<open>
  The planning subsystem is TypeScript running on Node. What the code takes from the
  runtime is kept apart from the code itself:
  \<^item> a \<open>Date\<close> is its time value in milliseconds, or the invalid date (time value NaN);
  \<^item> a JSON value is what \<open>JSON.parse\<close> returns (numbers restricted to integers, an
    object as its entries in property order, keys distinct);
  \<^item> the functions of the runtime the code calls (\<open>JSON.stringify\<close>, \<open>JSON.parse\<close>,
    \<open>Date.prototype.toISOString\<close>, the \<open>Date\<close> constructor) are the fields of a record
    \<open>runtime\<close> that every operation using them takes as its first argument. Theorems
    hold for every runtime unless a hypothesis says what is needed of it.
  The clock (\<open>new Date()\<close>), the random source (\<open>randomBytes\<close>, \<open>randomUUID\<close>) and
  \<open>os.homedir()\<close> are read once per call and are arguments of the operations.
  Strings are byte strings; requests are taken to be ASCII.

  Names are the source's. The fields of a record carry a prefix naming it (\<open>pf_\<close> for
  \<open>PlanFile\<close>, \<open>q_\<close> for \<open>Question\<close>, and so on) where records share field names, and a
  prime where the name is taken (\<open>notes'\<close>, \<open>completed'\<close>).
\<close>

datatype date = Date int | InvalidDate

datatype json =
    JNull
  | JBool bool
  | JNum int
  | JStr string
  | JArr "json list"
  | JObj "(string \<times> json) list"

record runtime =
  JSON_stringify :: "json \<Rightarrow> string"
  JSON_stringify_pretty :: "json \<Rightarrow> string"
  JSON_parse :: "string \<Rightarrow> json option"
  toISOString :: "int \<Rightarrow> string"
  new_Date :: "json option \<Rightarrow> date"

text \<open>
  \<open>JSON_stringify v\<close> is \<open>JSON.stringify(v)\<close>, \<open>JSON_stringify_pretty v\<close> is
  \<open>JSON.stringify(v, null, 2)\<close>; \<open>JSON_parse s\<close> is \<open>None\<close> where \<open>JSON.parse(s)\<close>
  throws a SyntaxError; \<open>toISOString t\<close> is the ISO string of the valid date with time
  value \<open>t\<close>; \<open>new_Date v\<close> is \<open>new Date(v)\<close> for a parsed JSON value \<open>v\<close>, with
  \<open>None\<close> standing for \<open>undefined\<close>.
\<close>

section \<open>Planning phases (planning/types.ts)\<close>

datatype PlanningPhase = initial_understanding | design | review | final_plan | exit

definition PLANNING_PHASE_ORDER :: "PlanningPhase list" where
  "PLANNING_PHASE_ORDER = [initial_understanding, design, review, final_plan, exit]"

fun PHASE_ALLOWED_TOOLS :: "PlanningPhase \<Rightarrow> string list" where
  "PHASE_ALLOWED_TOOLS initial_understanding =
     [''read_file'', ''find_files'', ''search_file_contents'', ''list_directory'']"
| "PHASE_ALLOWED_TOOLS design =
     [''read_file'', ''find_files'', ''search_file_contents'', ''list_directory'',
      ''write_plan_file'']"
| "PHASE_ALLOWED_TOOLS review =
     [''read_file'', ''find_files'', ''search_file_contents'', ''list_directory'']"
| "PHASE_ALLOWED_TOOLS final_plan =
     [''read_file'', ''find_files'', ''search_file_contents'', ''list_directory'']"
| "PHASE_ALLOWED_TOOLS exit = []"

record PhaseProgress =
  completed :: bool
  steps :: "string list"
  notes' :: "string option"

record PlanFile =
  pf_id :: string
  pf_slug :: string
  pf_createdAt :: date
  pf_updatedAt :: date
  pf_phase :: PlanningPhase
  pf_userRequest :: string
  pf_clarifications :: "(string \<times> json) list"
  pf_implementationPlan :: string
  pf_filesToModify :: "string list"
  pf_verificationSteps :: "string list"

record PlanningState =
  currentPhase :: PlanningPhase
  planFile :: "PlanFile option"
  phaseProgress :: "PlanningPhase \<Rightarrow> PhaseProgress"
  enabled :: bool

definition createInitialPlanningState :: PlanningState where
  "createInitialPlanningState =
     \<lparr>currentPhase = initial_understanding,
      planFile = None,
      phaseProgress = (\<lambda>_. \<lparr>completed = False, steps = [], notes' = None\<rparr>),
      enabled = False\<rparr>"

text \<open>\<open>Array.prototype.includes\<close> and \<open>Array.prototype.indexOf\<close> (-1 when absent).\<close>

fun array_includes :: "'a list \<Rightarrow> 'a \<Rightarrow> bool" where
  "array_includes [] x = False"
| "array_includes (y # ys) x = (y = x \<or> array_includes ys x)"

fun indexOf :: "'a list \<Rightarrow> 'a \<Rightarrow> int" where
  "indexOf [] x = -1"
| "indexOf (y # ys) x =
     (if y = x then 0 else (let i = indexOf ys x in if i = -1 then -1 else i + 1))"

definition isToolAllowedInPhase :: "string \<Rightarrow> PlanningPhase \<Rightarrow> bool" where
  "isToolAllowedInPhase toolName phase =
     (let allowedTools = PHASE_ALLOWED_TOOLS phase in array_includes allowedTools toolName)"

definition getNextPhase :: "PlanningPhase \<Rightarrow> PlanningPhase option" where
  "getNextPhase cur =
     (let currentIndex = indexOf PLANNING_PHASE_ORDER cur in
      if currentIndex = -1 \<or> currentIndex = int (length PLANNING_PHASE_ORDER) - 1 then None
      else Some (PLANNING_PHASE_ORDER ! nat (currentIndex + 1)))"

section \<open>Planning manager (planning/planning-manager.ts)\<close>

text \<open>
  The manager's private \<open>#state\<close> is passed in and returned. Every operation also returns
  the notifications it emits, in order; listeners are not run. An operation that throws
  returns \<open>Inl\<close> of its error next to the state it leaves behind.
\<close>

datatype PlanningEvent =
    phaseChanged PlanningPhase
  | planCreated PlanFile
  | planUpdated PlanFile
  | ev_enabled
  | ev_disabled

datatype error =
    NoCurrentQuestionToAnswer
  | AnswerIdMismatch string string
  | NoCurrentQuestionToSkip
  | CannotBeSkipped
  | NotProjectDirectory
  | RangeError
  | IOError string

definition enable :: "PlanningState \<Rightarrow> PlanningState \<times> PlanningEvent list" where
  "enable s =
     (if enabled s then (s, [])
      else (s\<lparr>enabled := True, currentPhase := initial_understanding\<rparr>, [ev_enabled]))"

definition transitionToNextPhase ::
  "int \<Rightarrow> PlanningState \<Rightarrow> bool \<times> PlanningState \<times> PlanningEvent list" where
  "transitionToNextPhase now s =
     (if \<not> enabled s then (False, s, [])
      else
        let s1 = s\<lparr>phaseProgress :=
                    (phaseProgress s)(currentPhase s :=
                       (phaseProgress s (currentPhase s))\<lparr>completed := True\<rparr>)\<rparr>
        in case getNextPhase (currentPhase s1) of
             None \<Rightarrow> (False, s1, [])
           | Some nextPhase \<Rightarrow>
               let s2 = s1\<lparr>currentPhase := nextPhase\<rparr>
               in (case planFile s2 of
                     None \<Rightarrow> (True, s2, [phaseChanged nextPhase])
                   | Some pf \<Rightarrow>
                       let pf' = pf\<lparr>pf_phase := nextPhase, pf_updatedAt := Date now\<rparr>
                       in (True, s2\<lparr>planFile := Some pf'\<rparr>,
                           [planUpdated pf', phaseChanged nextPhase])))"

definition isToolAllowed :: "PlanningState \<Rightarrow> string \<Rightarrow> bool" where
  "isToolAllowed s toolName =
     (if \<not> enabled s then True
      else isToolAllowedInPhase toolName (currentPhase s))"

definition getAllowedTools :: "PlanningState \<Rightarrow> string list" where
  "getAllowedTools s =
     (if \<not> enabled s then []
      else PHASE_ALLOWED_TOOLS (currentPhase s))"

text \<open>
  \<open>randomBytes(6).toString('hex')\<close>: the bytes drawn are an argument, each is written as
  two lower-case hexadecimal digits.
\<close>

definition hex_digit :: "nat \<Rightarrow> char" where
  "hex_digit n = ''0123456789abcdef'' ! (n mod 16)"

definition toString_hex :: "8 word list \<Rightarrow> string" where
  "toString_hex bytes =
     concat (map (\<lambda>b. [hex_digit (unat b div 16), hex_digit (unat b mod 16)]) bytes)"

definition generateSlug :: "8 word list \<Rightarrow> string" where
  "generateSlug randomBytes6 = toString_hex randomBytes6"

text \<open>
  \<open>createPlanFile\<close>: \<open>uuid\<close> is the value \<open>randomUUID()\<close> returns, \<open>randomBytes6\<close> the
  value of \<open>randomBytes(6)\<close>, \<open>now\<close> the time value of \<open>new Date()\<close>.
\<close>

definition createPlanFile ::
  "string \<Rightarrow> 8 word list \<Rightarrow> int \<Rightarrow> PlanningState \<Rightarrow> string \<Rightarrow>
     PlanFile \<times> PlanningState \<times> PlanningEvent list" where
  "createPlanFile uuid randomBytes6 now s userRequest =
     (let slug = generateSlug randomBytes6;
          planFile = \<lparr>pf_id = uuid,
                      pf_slug = slug,
                      pf_createdAt = Date now,
                      pf_updatedAt = Date now,
                      pf_phase = currentPhase s,
                      pf_userRequest = userRequest,
                      pf_clarifications = [],
                      pf_implementationPlan = [],
                      pf_filesToModify = [],
                      pf_verificationSteps = []\<rparr>
      in (planFile, s\<lparr>planFile := Some planFile\<rparr>, [planCreated planFile]))"

text \<open>
  The argument of \<open>updatePlanFile\<close> has type
  \<open>Partial<Omit<PlanFile, 'id' | 'slug' | 'createdAt'>>\<close>: each of the seven other
  fields is absent (\<open>None\<close>) or present with a value of the field's type (a field
  present with the value \<open>undefined\<close>, which \<open>Partial\<close> also admits, is left out).
\<close>

record PlanFileUpdates =
  u_updatedAt :: "date option"
  u_phase :: "PlanningPhase option"
  u_userRequest :: "string option"
  u_clarifications :: "(string \<times> json) list option"
  u_implementationPlan :: "string option"
  u_filesToModify :: "string list option"
  u_verificationSteps :: "string list option"

fun override :: "'a option \<Rightarrow> 'a \<Rightarrow> 'a" where
  "override None old = old"
| "override (Some v) old = v"

text \<open>The object spread \<open>{...planFile, ...updates}\<close>.\<close>

definition spread_updates :: "PlanFile \<Rightarrow> PlanFileUpdates \<Rightarrow> PlanFile" where
  "spread_updates pf u =
     pf\<lparr>pf_updatedAt := override (u_updatedAt u) (pf_updatedAt pf),
        pf_phase := override (u_phase u) (pf_phase pf),
        pf_userRequest := override (u_userRequest u) (pf_userRequest pf),
        pf_clarifications := override (u_clarifications u) (pf_clarifications pf),
        pf_implementationPlan := override (u_implementationPlan u) (pf_implementationPlan pf),
        pf_filesToModify := override (u_filesToModify u) (pf_filesToModify pf),
        pf_verificationSteps := override (u_verificationSteps u) (pf_verificationSteps pf)\<rparr>"

definition updatePlanFile ::
  "int \<Rightarrow> PlanningState \<Rightarrow> PlanFileUpdates \<Rightarrow> PlanningState \<times> PlanningEvent list" where
  "updatePlanFile now s updates =
     (case planFile s of
        None \<Rightarrow> (s, [])
      | Some pf \<Rightarrow>
          let pf' = (spread_updates pf updates)\<lparr>pf_updatedAt := Date now\<rparr>
          in (s\<lparr>planFile := Some pf'\<rparr>, [planUpdated pf']))"

section \<open>Question templates (planning/questions/types.ts)\<close>

datatype QuestionType = ambiguity | decision | confirmation

record QuestionOption =
  opt_id :: string
  opt_text :: string
  opt_description :: "string option"
  opt_pros :: "string list option"
  opt_cons :: "string list option"
  opt_followupQuestions :: "string list option"

record Question =
  q_id :: string
  q_type :: QuestionType
  q_template :: string
  q_options :: "QuestionOption list option"
  q_followupQuestions :: "string list option"
  q_allowSkip :: "bool option"
  q_allowMultiple :: "bool option"

record QuestionAnswer =
  questionId :: string
  selectedOptionIds :: "string list"
  customText :: "string option"
  timestamp :: date

text \<open>
  \<open>answeredQuestions\<close> is a JavaScript \<open>Map\<close>: its entries in insertion order, a key
  set again keeping its place (\<open>AList.update\<close>).
\<close>

record QuestionState =
  questionQueue :: "Question list"
  currentQuestion :: "Question option"
  answeredQuestions :: "(string \<times> QuestionAnswer) list"
  completed' :: bool

record AmbiguityTemplate =
  at_id :: string
  at_keywords :: "string list"
  at_template :: "string \<Rightarrow> string"
  at_options :: "QuestionOption list"
  at_allowSkip :: "bool option"

record DecisionTemplate =
  dt_id :: string
  dt_keywords :: "string list"
  dt_template :: "string \<Rightarrow> string"
  dt_options :: "QuestionOption list"
  dt_allowMultiple :: bool

record ConfirmationTemplate =
  ct_id :: string
  ct_triggers :: "string list"
  ct_template :: "runtime \<Rightarrow> (string \<times> json) list \<Rightarrow> string"
  ct_confirmLabel :: string
  ct_modifyLabel :: string

record QuestionContext =
  userRequest :: string
  projectFiles :: "string list"
  existingCode :: "string option"
  previousAnswers :: "(string \<times> QuestionAnswer) list option"

record QuestionConfig =
  maxQuestions :: nat
  allowSkip :: bool
  confidenceThreshold :: real

definition DEFAULT_QUESTION_CONFIG :: QuestionConfig where
  "DEFAULT_QUESTION_CONFIG = \<lparr>maxQuestions = 10, allowSkip = True, confidenceThreshold = 7 / 10\<rparr>"

definition mkOption ::
  "string \<Rightarrow> string \<Rightarrow> string \<Rightarrow> QuestionOption" where
  "mkOption i t d =
     \<lparr>opt_id = i, opt_text = t, opt_description = Some d, opt_pros = None, opt_cons = None,
      opt_followupQuestions = None\<rparr>"

definition mkOptionProsCons ::
  "string \<Rightarrow> string \<Rightarrow> string \<Rightarrow> string list \<Rightarrow> string list \<Rightarrow> QuestionOption" where
  "mkOptionProsCons i t d ps cs =
     \<lparr>opt_id = i, opt_text = t, opt_description = Some d, opt_pros = Some ps, opt_cons = Some cs,
      opt_followupQuestions = None\<rparr>"

definition performance_requirements_text :: string where
  \<open>performance_requirements_text =
     ''When you say "optimize performance", I need to understand your priorities better.\<newline>\<newline>'' @
     ''Which metrics are most important?\<newline>'' @
     ''[1] Response time / latency\<newline>'' @
     ''[2] Memory usage\<newline>'' @
     ''[3] CPU utilization\<newline>'' @
     ''[4] Database query performance\<newline>'' @
     ''[5] Network bandwidth\<newline>\<newline>'' @
     ''What's your target improvement?\<newline>'' @
     ''[1] 2x faster\<newline>'' @
     ''[2] 50% memory reduction\<newline>'' @
     ''[3] Handle 10x more users\<newline>'' @
     ''[4] Other specific target''\<close>

definition error_handling_text :: string where
  \<open>error_handling_text =
     ''How should we handle errors and failures?\<newline>\<newline>'' @
     ''What's your preferred approach?\<newline>'' @
     ''[1] Graceful degradation with fallbacks\<newline>'' @
     ''[2] Fail fast with detailed error messages\<newline>'' @
     ''[3] Retry mechanisms with exponential backoff\<newline>'' @
     ''[4] Circuit breaker pattern\<newline>\<newline>'' @
     ''Should errors be:\<newline>'' @
     ''[1] Logged for debugging\<newline>'' @
     ''[2] Shown to users (sanitized)\<newline>'' @
     ''[3] Sent to monitoring service\<newline>'' @
     ''[4] All of the above''\<close>

definition architecture_pattern_text :: string where
  \<open>architecture_pattern_text =
     ''What architectural pattern would you prefer?\<newline>\<newline>'' @
     ''[1] Monolithic - Single application with all components\<newline>'' @
     ''    Pros: Simple to develop, easier debugging, lower complexity\<newline>'' @
     ''    Cons: Harder to scale, tight coupling\<newline>\<newline>'' @
     ''[2] Microservices - Separate services for different functions\<newline>'' @
     ''    Pros: Scalable, independent deployment, technology diversity\<newline>'' @
     ''    Cons: Network complexity, data consistency challenges\<newline>\<newline>'' @
     ''[3] Modular Monolith - Single app with clear module boundaries\<newline>'' @
     ''    Pros: Balanced approach, future migration path\<newline>'' @
     ''    Cons: Still single deployment unit''\<close>

definition database_choice_text :: string where
  \<open>database_choice_text =
     ''What type of database would you prefer?\<newline>\<newline>'' @
     ''[1] PostgreSQL - Relational database with strong consistency\<newline>'' @
     ''    Pros: ACID compliance, complex queries, data integrity\<newline>'' @
     ''    Cons: Vertical scaling, schema migrations\<newline>\<newline>'' @
     ''[2] MongoDB - Document database with flexible schema\<newline>'' @
     ''    Pros: Schema flexibility, horizontal scaling, JSON native\<newline>'' @
     ''    Cons: Eventual consistency, no joins\<newline>\<newline>'' @
     ''[3] SQLite - File-based relational database\<newline>'' @
     ''    Pros: Simple setup, zero configuration, portable\<newline>'' @
     ''    Cons: Single writer, limited scaling''\<close>

definition authentication_method_text :: string where
  \<open>authentication_method_text =
     ''What authentication approach should I implement?\<newline>\<newline>'' @
     ''[1] JWT Tokens - Stateless tokens with digital signatures\<newline>'' @
     ''    Pros: Scalable, standard approach, no server state\<newline>'' @
     ''    Cons: Token management, cannot revoke easily\<newline>\<newline>'' @
     ''[2] Session-based - Server-side session storage\<newline>'' @
     ''    Pros: Easy to revoke, secure, simple\<newline>'' @
     ''    Cons: Server memory usage, not scalable\<newline>\<newline>'' @
     ''[3] OAuth2 Integration - Third-party authentication\<newline>'' @
     ''    Pros: No password management, social login, trusted\<newline>'' @
     ''    Cons: External dependency, complex setup''\<close>

definition AMBIGUITY_TEMPLATES :: "AmbiguityTemplate list" where
  "AMBIGUITY_TEMPLATES =
     [\<lparr>at_id = ''performance-requirements'',
       at_keywords = [''optimize'', ''performance'', ''fast'', ''efficient''],
       at_template = (\<lambda>context. performance_requirements_text),
       at_options =
         [mkOption ''response-time'' ''Response time'' ''Focus on latency and speed'',
          mkOption ''memory'' ''Memory usage'' ''Focus on memory efficiency'',
          mkOption ''cpu'' ''CPU utilization'' ''Focus on CPU efficiency'',
          mkOption ''database'' ''Database performance'' ''Focus on query optimization''],
       at_allowSkip = Some True\<rparr>,
      \<lparr>at_id = ''error-handling'',
       at_keywords = [''error handling'', ''robust'', ''reliable''],
       at_template = (\<lambda>context. error_handling_text),
       at_options =
         [mkOption ''graceful'' ''Graceful degradation''
            ''Continue operating with reduced functionality'',
          mkOption ''fail-fast'' ''Fail fast'' ''Stop immediately and show detailed errors'',
          mkOption ''retry'' ''Retry mechanisms'' ''Automatically retry failed operations'',
          mkOption ''circuit-breaker'' ''Circuit breaker'' ''Stop calling failing services''],
       at_allowSkip = Some True\<rparr>]"

definition DECISION_TEMPLATES :: "DecisionTemplate list" where
  "DECISION_TEMPLATES =
     [\<lparr>dt_id = ''architecture-pattern'',
       dt_keywords = [''build'', ''create'', ''implement'', ''architecture'', ''structure''],
       dt_template = (\<lambda>context. architecture_pattern_text),
       dt_options =
         [mkOptionProsCons ''monolithic'' ''Monolithic'' ''Simple, single-unit application''
            [''Simple to develop'', ''Easier debugging''] [''Harder to scale''],
          mkOptionProsCons ''microservices'' ''Microservices''
            ''Distributed, independent services''
            [''Scalable'', ''Independent deployment'']
            [''Network complexity'', ''Data consistency''],
          mkOptionProsCons ''modular-monolith'' ''Modular Monolith''
            ''Single app with module boundaries''
            [''Balanced approach'', ''Future migration path''] [''Single deployment unit'']],
       dt_allowMultiple = False\<rparr>,
      \<lparr>dt_id = ''database-choice'',
       dt_keywords = [''database'', ''storage'', ''persistence'', ''data''],
       dt_template = (\<lambda>context. database_choice_text),
       dt_options =
         [mkOption ''postgresql'' ''PostgreSQL'' ''Strong consistency, complex queries'',
          mkOption ''mongodb'' ''MongoDB'' ''Flexible schema, horizontal scaling'',
          mkOption ''sqlite'' ''SQLite'' ''Simple, portable, embedded''],
       dt_allowMultiple = False\<rparr>,
      \<lparr>dt_id = ''authentication-method'',
       dt_keywords = [''authentication'', ''login'', ''auth'', ''user'', ''security''],
       dt_template = (\<lambda>context. authentication_method_text),
       dt_options =
         [mkOption ''jwt'' ''JWT Tokens'' ''Stateless, scalable'',
          mkOption ''session'' ''Session-based'' ''Server-controlled, easy to revoke'',
          mkOption ''oauth2'' ''OAuth2'' ''Third-party authentication''],
       dt_allowMultiple = False\<rparr>]"

text \<open>\<open>Array.prototype.join\<close> on strings.\<close>

fun array_join :: "string list \<Rightarrow> string \<Rightarrow> string" where
  "array_join [] sep = []"
| "array_join [x] sep = x"
| "array_join (x # y # ys) sep = x @ sep @ array_join (y # ys) sep"

definition assumptions_confirmation_template :: "runtime \<Rightarrow> (string \<times> json) list \<Rightarrow> string" where
  "assumptions_confirmation_template rt assumptions =
     (let items =
            array_join
              (map (\<lambda>(key, val). ''- '' @ key @ '': '' @ JSON_stringify rt val) assumptions)
              ''\<newline>''
      in ''Before I start implementing, I want to confirm my understanding:\<newline>\<newline>'' @
         ''Current Requirements:\<newline>'' @ items @
         ''\<newline>\<newline>Are these assumptions correct? Should I proceed with this understanding?'')"

definition CONFIRMATION_TEMPLATES :: "ConfirmationTemplate list" where
  "CONFIRMATION_TEMPLATES =
     [\<lparr>ct_id = ''assumptions-confirmation'',
       ct_triggers = [''create'', ''build'', ''implement''],
       ct_template = assumptions_confirmation_template,
       ct_confirmLabel = ''Yes, proceed'',
       ct_modifyLabel = ''No, let me clarify''\<rparr>]"

section \<open>Question manager (planning/questions/question-manager.ts)\<close>

text \<open>
  \<open>String.prototype.toLowerCase\<close> on ASCII, \<open>String.prototype.startsWith\<close> and
  \<open>String.prototype.includes\<close> (substring test).
\<close>

definition toLowerCase :: "string \<Rightarrow> string" where
  "toLowerCase s =
     map (\<lambda>c. case map_of (zip ''ABCDEFGHIJKLMNOPQRSTUVWXYZ'' ''abcdefghijklmnopqrstuvwxyz'') c of
                 None \<Rightarrow> c
               | Some l \<Rightarrow> l) s"

fun startsWith :: "string \<Rightarrow> string \<Rightarrow> bool" where
  "startsWith s [] = True"
| "startsWith [] (p # ps) = False"
| "startsWith (c # cs) (p # ps) = (c = p \<and> startsWith cs ps)"

fun str_includes :: "string \<Rightarrow> string \<Rightarrow> bool" where
  "str_includes [] kw = startsWith [] kw"
| "str_includes (c # cs) kw = (startsWith (c # cs) kw \<or> str_includes cs kw)"

text \<open>\<open>Array.prototype.some\<close>, \<open>find\<close> and \<open>findIndex\<close> (-1 when no element matches).\<close>

fun some :: "('a \<Rightarrow> bool) \<Rightarrow> 'a list \<Rightarrow> bool" where
  "some P [] = False"
| "some P (x # xs) = (P x \<or> some P xs)"

fun findIndex :: "('a \<Rightarrow> bool) \<Rightarrow> 'a list \<Rightarrow> int" where
  "findIndex P [] = -1"
| "findIndex P (x # xs) =
     (if P x then 0 else (let i = findIndex P xs in if i = -1 then -1 else i + 1))"

text \<open>
  \<open>Array.prototype.sort\<close> with a comparator: a stable sort (ECMAScript 2019); an element
  goes before the first later element the comparator does not put it after.
\<close>

fun insert_by :: "('a \<Rightarrow> 'a \<Rightarrow> int) \<Rightarrow> 'a \<Rightarrow> 'a list \<Rightarrow> 'a list" where
  "insert_by cmp x [] = [x]"
| "insert_by cmp x (y # ys) = (if cmp x y \<le> 0 then x # y # ys else y # insert_by cmp x ys)"

definition array_sort :: "('a \<Rightarrow> 'a \<Rightarrow> int) \<Rightarrow> 'a list \<Rightarrow> 'a list" where
  "array_sort cmp xs = foldr (insert_by cmp) xs []"

record QuestionManager =
  qm_state :: QuestionState
  qm_context :: "QuestionContext option"
  qm_config :: QuestionConfig

text \<open>The constructor's \<open>config\<close> argument is a \<open>Partial\<close> of the default configuration.\<close>

record PartialQuestionConfig =
  pc_maxQuestions :: "nat option"
  pc_allowSkip :: "bool option"
  pc_confidenceThreshold :: "real option"

definition emptyQuestionState :: QuestionState where
  "emptyQuestionState =
     \<lparr>questionQueue = [], currentQuestion = None, answeredQuestions = [], completed' = False\<rparr>"

definition new_QuestionManager ::
  "QuestionContext option \<Rightarrow> PartialQuestionConfig \<Rightarrow> QuestionManager" where
  "new_QuestionManager ctx cfg =
     \<lparr>qm_state = emptyQuestionState,
      qm_context = ctx,
      qm_config =
        \<lparr>maxQuestions = override (pc_maxQuestions cfg) (maxQuestions DEFAULT_QUESTION_CONFIG),
         allowSkip = override (pc_allowSkip cfg) (allowSkip DEFAULT_QUESTION_CONFIG),
         confidenceThreshold =
           override (pc_confidenceThreshold cfg) (confidenceThreshold DEFAULT_QUESTION_CONFIG)\<rparr>\<rparr>"

definition setContext :: "QuestionManager \<Rightarrow> QuestionContext \<Rightarrow> QuestionManager" where
  "setContext m ctx = m\<lparr>qm_context := Some ctx\<rparr>"

definition findMatchingQuestions :: "runtime \<Rightarrow> string \<Rightarrow> Question list" where
  "findMatchingQuestions rt request =
     (let lowerRequest = toLowerCase request;
          fromAmbiguity =
            map (\<lambda>t. \<lparr>q_id = at_id t,
                       q_type = ambiguity,
                       q_template = at_template t request,
                       q_options = Some (at_options t),
                       q_followupQuestions = None,
                       q_allowSkip = Some True,
                       q_allowMultiple = None\<rparr>)
              (filter (\<lambda>t. some (\<lambda>kw. str_includes lowerRequest kw) (at_keywords t))
                 AMBIGUITY_TEMPLATES);
          fromDecision =
            map (\<lambda>t. \<lparr>q_id = dt_id t,
                       q_type = decision,
                       q_template = dt_template t request,
                       q_options = Some (dt_options t),
                       q_followupQuestions = None,
                       q_allowSkip = Some True,
                       q_allowMultiple = Some (dt_allowMultiple t)\<rparr>)
              (filter (\<lambda>t. some (\<lambda>kw. str_includes lowerRequest kw) (dt_keywords t))
                 DECISION_TEMPLATES);
          confirmKeywords = [''create'', ''build'', ''implement'', ''add'', ''develop''];
          fromConfirmation =
            (if some (\<lambda>kw. str_includes lowerRequest kw) confirmKeywords
             then (case find (\<lambda>t. ct_id t = ''assumptions-confirmation'') CONFIRMATION_TEMPLATES of
                     None \<Rightarrow> []
                   | Some confirmTemplate \<Rightarrow>
                       [\<lparr>q_id = ct_id confirmTemplate,
                         q_type = confirmation,
                         q_template =
                           ct_template confirmTemplate rt
                             [(''request'', JStr request), (''scope'', JStr ''current task'')],
                         q_options = None,
                         q_followupQuestions = None,
                         q_allowSkip = Some False,
                         q_allowMultiple = None\<rparr>])
             else [])
      in fromAmbiguity @ fromDecision @ fromConfirmation)"

definition getKeywordCount :: "string \<Rightarrow> string \<Rightarrow> int" where
  "getKeywordCount qid request =
     (let lowerRequest = toLowerCase request in
      case find (\<lambda>t. at_id t = qid) AMBIGUITY_TEMPLATES of
        Some ambTemplate \<Rightarrow>
          int (length (filter (\<lambda>kw. str_includes lowerRequest kw) (at_keywords ambTemplate)))
      | None \<Rightarrow>
          (case find (\<lambda>t. dt_id t = qid) DECISION_TEMPLATES of
             Some decTemplate \<Rightarrow>
               int (length (filter (\<lambda>kw. str_includes lowerRequest kw) (dt_keywords decTemplate)))
           | None \<Rightarrow> 0))"

definition sortByKeywordMatch :: "string \<Rightarrow> Question \<Rightarrow> Question \<Rightarrow> int" where
  "sortByKeywordMatch request a b =
     (let aKeywords = getKeywordCount (q_id a) request;
          bKeywords = getKeywordCount (q_id b) request
      in bKeywords - aKeywords)"

definition prioritizeQuestions :: "Question list \<Rightarrow> string \<Rightarrow> Question list" where
  "prioritizeQuestions questions request =
     (let confirmationQuestions = filter (\<lambda>q. q_type q = confirmation) questions;
          decisionQuestions = filter (\<lambda>q. q_type q = decision) questions;
          ambiguityQuestions = filter (\<lambda>q. q_type q = ambiguity) questions
      in confirmationQuestions
         @ array_sort (sortByKeywordMatch request) decisionQuestions
         @ array_sort (sortByKeywordMatch request) ambiguityQuestions)"

text \<open>\<open>slice(0, maxQuestions)\<close> for a count that is not negative is \<open>take\<close>.\<close>

definition generateQuestions ::
  "runtime \<Rightarrow> QuestionManager \<Rightarrow> string \<Rightarrow> string list \<Rightarrow> QuestionManager" where
  "generateQuestions rt m request files =
     (let ctx = (case qm_context m of
                   None \<Rightarrow> \<lparr>userRequest = request, projectFiles = files, existingCode = None,
                             previousAnswers = Some []\<rparr>
                 | Some c \<Rightarrow> c);
          matchedQuestions = findMatchingQuestions rt request;
          prioritizedQuestions = prioritizeQuestions matchedQuestions request;
          queue = take (maxQuestions (qm_config m)) prioritizedQuestions;
          st = (qm_state m)\<lparr>questionQueue := queue\<rparr>
      in m\<lparr>qm_context := Some ctx,
           qm_state := (case queue of
                          [] \<Rightarrow> st\<lparr>completed' := True\<rparr>
                        | q # _ \<Rightarrow> st\<lparr>currentQuestion := Some q\<rparr>)\<rparr>)"

text \<open>
  \<open>#processFollowUpQuestions\<close> collects the follow-up ids in a local array and drops it;
  the function below returns that array, and \<open>submitAnswer\<close> does not use it.
\<close>

definition processFollowUpQuestions :: "QuestionAnswer \<Rightarrow> Question \<Rightarrow> string list" where
  "processFollowUpQuestions answer question =
     (let fromOptions =
            (case q_options question of
               None \<Rightarrow> []
             | Some opts \<Rightarrow>
                 concat (map (\<lambda>optionId.
                                case find (\<lambda>opt. opt_id opt = optionId) opts of
                                  None \<Rightarrow> []
                                | Some opt \<Rightarrow>
                                    (case opt_followupQuestions opt of None \<Rightarrow> [] | Some f \<Rightarrow> f))
                           (selectedOptionIds answer)));
          fromQuestion = (case q_followupQuestions question of None \<Rightarrow> [] | Some f \<Rightarrow> f)
      in fromOptions @ fromQuestion)"

definition moveToNextQuestion :: "QuestionState \<Rightarrow> QuestionState" where
  "moveToNextQuestion st =
     (let currentIndex =
            findIndex (\<lambda>q. case currentQuestion st of None \<Rightarrow> False | Some c \<Rightarrow> q_id q = q_id c)
              (questionQueue st)
      in if currentIndex \<ge> 0 \<and> currentIndex < int (length (questionQueue st)) - 1
         then st\<lparr>currentQuestion := Some (questionQueue st ! nat (currentIndex + 1))\<rparr>
         else st\<lparr>currentQuestion := None, completed' := True\<rparr>)"

definition submitAnswer ::
  "QuestionManager \<Rightarrow> QuestionAnswer \<Rightarrow> (error + unit) \<times> QuestionManager" where
  "submitAnswer m answer =
     (case currentQuestion (qm_state m) of
        None \<Rightarrow> (Inl NoCurrentQuestionToAnswer, m)
      | Some cur \<Rightarrow>
          if questionId answer \<noteq> q_id cur
          then (Inl (AnswerIdMismatch (questionId answer) (q_id cur)), m)
          else
            let st1 = (qm_state m)
                        \<lparr>answeredQuestions :=
                           AList.update (questionId answer) answer
                             (answeredQuestions (qm_state m))\<rparr>;
                followUpIds = processFollowUpQuestions answer cur
            in (Inr (), m\<lparr>qm_state := moveToNextQuestion st1\<rparr>))"

definition skipCurrentQuestion ::
  "int \<Rightarrow> QuestionManager \<Rightarrow> (error + unit) \<times> QuestionManager" where
  "skipCurrentQuestion now m =
     (case currentQuestion (qm_state m) of
        None \<Rightarrow> (Inl NoCurrentQuestionToSkip, m)
      | Some cur \<Rightarrow>
          if q_allowSkip cur \<noteq> Some True
          then (Inl CannotBeSkipped, m)
          else
            let st1 = (qm_state m)
                        \<lparr>answeredQuestions :=
                           AList.update (q_id cur)
                             \<lparr>questionId = q_id cur, selectedOptionIds = [], customText = None,
                              timestamp = Date now\<rparr>
                             (answeredQuestions (qm_state m))\<rparr>
            in (Inr (), m\<lparr>qm_state := moveToNextQuestion st1\<rparr>))"

definition reset :: "QuestionManager \<Rightarrow> QuestionManager" where
  "reset m = m\<lparr>qm_state := emptyQuestionState, qm_context := None\<rparr>"

text \<open>
  The states a question manager can be in: the constructor's, and whatever the public
  operations make of a state it can be in (a failed operation leaves the state as it
  was).
\<close>

inductive reachable :: "runtime \<Rightarrow> QuestionManager \<Rightarrow> bool" for rt :: runtime where
  reachable_new: "reachable rt (new_QuestionManager ctx cfg)"
| reachable_setContext: "reachable rt m \<Longrightarrow> reachable rt (setContext m ctx)"
| reachable_generate: "reachable rt m \<Longrightarrow> reachable rt (generateQuestions rt m request fs)"
| reachable_submit: "reachable rt m \<Longrightarrow> reachable rt (snd (submitAnswer m answer))"
| reachable_skip: "reachable rt m \<Longrightarrow> reachable rt (snd (skipCurrentQuestion now m))"
| reachable_reset: "reachable rt m \<Longrightarrow> reachable rt (reset m)"

section \<open>Plan file store (planning/plan-file.ts)\<close>

text \<open>
  The file system: the content of every file, the directories that exist, and the paths
  on which the operating system refuses an operation for a reason of its own
  (permissions, a file where a directory is wanted). Paths are compared as strings. An
  operation returns its outcome next to the file system it leaves behind.
  \<open>mkdir\<close> with \<open>recursive: true\<close> makes the directory and every ancestor that is
  missing. \<open>writeFile\<close> fails (ENOENT) when the directory the file is to stand in does
  not exist; it does not make directories.
\<close>

record filesystem =
  files :: "string \<Rightarrow> string option"
  dirs :: "string set"
  denied :: "string set"

text \<open>
  \<open>dirname p\<close> is the path up to the last slash of \<open>p\<close>; \<open>ancestors p\<close> are the paths
  up to each slash of \<open>p\<close> but the first character.
\<close>

definition dirname :: "string \<Rightarrow> string" where
  "dirname p =
     (let d = rev (tl (dropWhile (\<lambda>c. c \<noteq> CHR ''/'') (rev p)))
      in if d = [] then (if take 1 p = ''/'' then ''/'' else ''.'') else d)"

definition ancestors :: "string \<Rightarrow> string list" where
  "ancestors p = map (\<lambda>i. take i p) (filter (\<lambda>i. p ! i = CHR ''/'') [1..<length p])"

definition mkdir_recursive :: "filesystem \<Rightarrow> string \<Rightarrow> (error + unit) \<times> filesystem" where
  "mkdir_recursive fs p =
     (if p \<in> denied fs then (Inl (IOError p), fs)
      else (Inr (), fs\<lparr>dirs := insert p (dirs fs \<union> set (ancestors p))\<rparr>))"

definition writeFile :: "filesystem \<Rightarrow> string \<Rightarrow> string \<Rightarrow> (error + unit) \<times> filesystem" where
  "writeFile fs p content =
     (if p \<in> denied fs then (Inl (IOError p), fs)
      else if dirname p \<in> dirs fs then (Inr (), fs\<lparr>files := (files fs)(p \<mapsto> content)\<rparr>)
      else (Inl (IOError p), fs))"

definition readFile :: "filesystem \<Rightarrow> string \<Rightarrow> error + string" where
  "readFile fs p =
     (if p \<in> denied fs then Inl (IOError p)
      else case files fs p of None \<Rightarrow> Inl (IOError p) | Some content \<Rightarrow> Inr content)"

definition PLAN_DIR :: string where
  "PLAN_DIR = ''.nanocoder/plans''"

definition PLAN_MD_EXT :: string where
  "PLAN_MD_EXT = ''.plan.md''"

definition PLAN_JSON_EXT :: string where
  "PLAN_JSON_EXT = ''.plan.json''"

text \<open>\<open>path.join\<close> of two segments, without the normalisation Node applies to the result.\<close>

definition path_join :: "string \<Rightarrow> string \<Rightarrow> string" where
  "path_join a b = a @ ''/'' @ b"

text \<open>\<open>s.replace(/\\/g, '/')\<close>: every backslash becomes a slash.\<close>

definition replace_backslashes :: "string \<Rightarrow> string" where
  "replace_backslashes s = map (\<lambda>c. if c = CHR 0x5C then CHR ''/'' else c) s"

text \<open>\<open>home\<close> is the value of \<open>os.homedir()\<close>.\<close>

definition isValidProjectDirectory :: "string \<Rightarrow> string \<Rightarrow> bool" where
  "isValidProjectDirectory home cwd =
     (let normalizedCwd = replace_backslashes cwd;
          normalizedHome = replace_backslashes home
      in if normalizedCwd = normalizedHome then False
         else if startsWith normalizedCwd (normalizedHome @ ''/'') then False
         else True)"

definition getPlanDirectory :: "string \<Rightarrow> string" where
  "getPlanDirectory cwd = path_join cwd PLAN_DIR"

definition ensurePlanDirectory ::
  "string \<Rightarrow> filesystem \<Rightarrow> string \<Rightarrow> (error + unit) \<times> filesystem" where
  "ensurePlanDirectory home fs cwd =
     (if \<not> isValidProjectDirectory home cwd then (Inl NotProjectDirectory, fs)
      else let planDir = getPlanDirectory cwd in mkdir_recursive fs planDir)"

definition getPlanMdPath :: "string \<Rightarrow> string \<Rightarrow> string" where
  "getPlanMdPath cwd slug = path_join (getPlanDirectory cwd) (slug @ PLAN_MD_EXT)"

definition getPlanJsonPath :: "string \<Rightarrow> string \<Rightarrow> string" where
  "getPlanJsonPath cwd slug = path_join (getPlanDirectory cwd) (slug @ PLAN_JSON_EXT)"

text \<open>The string of a phase, and of a natural number in decimal.\<close>

fun phase_string :: "PlanningPhase \<Rightarrow> string" where
  "phase_string initial_understanding = ''initial_understanding''"
| "phase_string design = ''design''"
| "phase_string review = ''review''"
| "phase_string final_plan = ''final_plan''"
| "phase_string exit = ''exit''"

fun show_nat :: "nat \<Rightarrow> string" where
  "show_nat n =
     (if n < 10 then [''0123456789'' ! n]
      else show_nat (n div 10) @ [''0123456789'' ! (n mod 10)])"

text \<open>\<open>a || b\<close> on strings: the empty string is falsy.\<close>

definition or_else :: "string \<Rightarrow> string \<Rightarrow> string" where
  "or_else a b = (if a = [] then b else a)"

text \<open>\<open>toISOString\<close> throws a RangeError on the invalid date; \<open>toJSON\<close> gives null there.\<close>

definition date_toISOString :: "runtime \<Rightarrow> date \<Rightarrow> error + string" where
  "date_toISOString rt d = (case d of Date t \<Rightarrow> Inr (toISOString rt t) | InvalidDate \<Rightarrow> Inl RangeError)"

definition date_toJSON :: "runtime \<Rightarrow> date \<Rightarrow> json" where
  "date_toJSON rt d = (case d of Date t \<Rightarrow> JStr (toISOString rt t) | InvalidDate \<Rightarrow> JNull)"

definition generatePlanMarkdown :: "runtime \<Rightarrow> PlanFile \<Rightarrow> error + string" where
  "generatePlanMarkdown rt pf =
     (let clarifications =
            array_join
              (map (\<lambda>(key, val). ''**'' @ key @ ''**: '' @ JSON_stringify rt val)
                 (pf_clarifications pf))
              ''\<newline>'';
          filesList =
            array_join (map (\<lambda>file. ''- `'' @ file @ ''`'') (pf_filesToModify pf))
              ''\<newline>'';
          verificationSteps =
            array_join
              (map (\<lambda>(i, step). show_nat (i + 1) @ ''. '' @ step)
                 (enumerate 0 (pf_verificationSteps pf)))
              ''\<newline>''
      in case date_toISOString rt (pf_createdAt pf) of
           Inl e \<Rightarrow> Inl e
         | Inr created \<Rightarrow>
             (case date_toISOString rt (pf_updatedAt pf) of
                Inl e \<Rightarrow> Inl e
              | Inr updated \<Rightarrow>
                  Inr (''# Plan: '' @ pf_slug pf @ ''\<newline>\<newline>'' @
                       ''**Created:** '' @ created @ ''\<newline>'' @
                       ''**Updated:** '' @ updated @ ''\<newline>'' @
                       ''**Phase:** '' @ phase_string (pf_phase pf) @ ''\<newline>\<newline>'' @
                       ''## User Request\<newline>'' @ pf_userRequest pf @ ''\<newline>\<newline>'' @
                       ''## Clarifications\<newline>'' @ or_else clarifications ''None'' @
                       ''\<newline>\<newline>'' @
                       ''## Implementation Plan\<newline>'' @
                       or_else (pf_implementationPlan pf) ''To be determined...'' @
                       ''\<newline>\<newline>'' @
                       ''## Files to Modify\<newline>'' @ or_else filesList ''None identified yet'' @
                       ''\<newline>\<newline>'' @
                       ''## Verification\<newline>'' @
                       or_else verificationSteps ''To be determined...'' @ ''\<newline>'')))"

text \<open>
  The JSON value \<open>JSON.stringify\<close> serialises for a plan file: an object of its fields,
  the dates through \<open>toJSON\<close>. A record carries no property order; the properties are
  listed in the order of the interface.
\<close>

definition PlanFile_properties :: "runtime \<Rightarrow> PlanFile \<Rightarrow> (string \<times> json) list" where
  "PlanFile_properties rt p =
     [(''id'', JStr (pf_id p)),
      (''slug'', JStr (pf_slug p)),
      (''createdAt'', date_toJSON rt (pf_createdAt p)),
      (''updatedAt'', date_toJSON rt (pf_updatedAt p)),
      (''phase'', JStr (phase_string (pf_phase p))),
      (''userRequest'', JStr (pf_userRequest p)),
      (''clarifications'', JObj (pf_clarifications p)),
      (''implementationPlan'', JStr (pf_implementationPlan p)),
      (''filesToModify'', JArr (map JStr (pf_filesToModify p))),
      (''verificationSteps'', JArr (map JStr (pf_verificationSteps p)))]"

definition PlanFile_toJSON :: "runtime \<Rightarrow> PlanFile \<Rightarrow> json" where
  "PlanFile_toJSON rt p = JObj (PlanFile_properties rt p)"

definition savePlanFile ::
  "runtime \<Rightarrow> string \<Rightarrow> filesystem \<Rightarrow> string \<Rightarrow> PlanFile \<Rightarrow> string option \<Rightarrow>
     (error + unit) \<times> filesystem" where
  "savePlanFile rt home fs cwd pf markdownContent =
     (case ensurePlanDirectory home fs cwd of
        (Inl e, fs1) \<Rightarrow> (Inl e, fs1)
      | (Inr _, fs1) \<Rightarrow>
          let mdPath = getPlanMdPath cwd (pf_slug pf);
              jsonPath = getPlanJsonPath cwd (pf_slug pf)
          in case (case markdownContent of
                     None \<Rightarrow> generatePlanMarkdown rt pf
                   | Some c \<Rightarrow> if c = [] then generatePlanMarkdown rt pf else Inr c) of
               Inl e \<Rightarrow> (Inl e, fs1)
             | Inr content \<Rightarrow>
                 (case writeFile fs1 mdPath content of
                    (Inl e, fs2) \<Rightarrow> (Inl e, fs2)
                  | (Inr _, fs2) \<Rightarrow>
                      writeFile fs2 jsonPath
                        (JSON_stringify_pretty rt (PlanFile_toJSON rt pf))))"

text \<open>
  What \<open>loadPlanFile\<close> returns is an object built from the parsed JSON, whatever the
  parse gave: its properties are parsed JSON values or \<open>Date\<close> objects. \<open>object_spread\<close>
  is \<open>{...data}\<close> for a parsed value (an array or a string spreads its indices, a number
  or a boolean nothing); \<open>get_property data k\<close> is \<open>data.k\<close> for a property name
  \<open>k\<close> that is neither an index nor \<open>length\<close>, \<open>None\<close> standing for \<open>undefined\<close>.
  Reading a property of \<open>null\<close> throws a TypeError, which the \<open>catch\<close> turns into \<open>null\<close>.
\<close>

datatype jsvalue = JV json | DV date

definition object_spread :: "json \<Rightarrow> (string \<times> jsvalue) list" where
  "object_spread data =
     (case data of
        JObj kvs \<Rightarrow> map (\<lambda>(k, v). (k, JV v)) kvs
      | JArr xs \<Rightarrow> map (\<lambda>(i, v). (show_nat i, JV v)) (enumerate 0 xs)
      | JStr s \<Rightarrow> map (\<lambda>(i, c). (show_nat i, JV (JStr [c]))) (enumerate 0 s)
      | _ \<Rightarrow> [])"

definition get_property :: "json \<Rightarrow> string \<Rightarrow> json option" where
  "get_property data k = (case data of JObj kvs \<Rightarrow> map_of kvs k | _ \<Rightarrow> None)"

definition loadPlanFile ::
  "runtime \<Rightarrow> filesystem \<Rightarrow> string \<Rightarrow> string \<Rightarrow> (string \<times> jsvalue) list option" where
  "loadPlanFile rt fs cwd slug =
     (let jsonPath = getPlanJsonPath cwd slug in
      case readFile fs jsonPath of
        Inl _ \<Rightarrow> None
      | Inr content \<Rightarrow>
          (case JSON_parse rt content of
             None \<Rightarrow> None
           | Some data \<Rightarrow>
               if data = JNull then None
               else Some (AList.update ''updatedAt''
                            (DV (new_Date rt (get_property data ''updatedAt'')))
                            (AList.update ''createdAt''
                               (DV (new_Date rt (get_property data ''createdAt'')))
                               (object_spread data)))))"

text \<open>The object a plan file is in memory, property by property.\<close>

definition PlanFile_object :: "PlanFile \<Rightarrow> (string \<times> jsvalue) list" where
  "PlanFile_object p =
     [(''id'', JV (JStr (pf_id p))),
      (''slug'', JV (JStr (pf_slug p))),
      (''createdAt'', DV (pf_createdAt p)),
      (''updatedAt'', DV (pf_updatedAt p)),
      (''phase'', JV (JStr (phase_string (pf_phase p)))),
      (''userRequest'', JV (JStr (pf_userRequest p))),
      (''clarifications'', JV (JObj (pf_clarifications p))),
      (''implementationPlan'', JV (JStr (pf_implementationPlan p))),
      (''filesToModify'', JV (JArr (map JStr (pf_filesToModify p)))),
      (''verificationSteps'', JV (JArr (map JStr (pf_verificationSteps p))))]"

text \<open>Two objects are deep-equal when they have the same properties with equal values.\<close>

definition deep_equal :: "(string \<times> jsvalue) list \<Rightarrow> (string \<times> jsvalue) list \<Rightarrow> bool" where
  "deep_equal a b = (map_of a = map_of b)"

section \<open>Plan manager facade (planning/plan-manager.ts)\<close>

text \<open>\<open>cwd\<close> is the manager's \<open>#cwd\<close>.\<close>

definition createPlan ::
  "runtime \<Rightarrow> string \<Rightarrow> filesystem \<Rightarrow> string \<Rightarrow> 8 word list \<Rightarrow> int \<Rightarrow> string \<Rightarrow>
     (error + PlanFile) \<times> filesystem" where
  "createPlan rt home fs cwd randomBytes6 now request =
     (if \<not> isValidProjectDirectory home cwd then (Inl NotProjectDirectory, fs)
      else
        let slug = generateSlug randomBytes6;
            planFile = \<lparr>pf_id = slug,
                        pf_slug = slug,
                        pf_createdAt = Date now,
                        pf_updatedAt = Date now,
                        pf_phase = initial_understanding,
                        pf_userRequest = request,
                        pf_clarifications = [],
                        pf_implementationPlan = [],
                        pf_filesToModify = [],
                        pf_verificationSteps = []\<rparr>
        in case savePlanFile rt home fs cwd planFile None of
             (Inl e, fs') \<Rightarrow> (Inl e, fs')
           | (Inr _, fs') \<Rightarrow> (Inr planFile, fs'))"

section \<open>A sample runtime\<close>

text \<open>
  A runtime to evaluate the operations on concrete inputs. It writes and reads JSON text
  as Node does for integers and for strings of printable ASCII characters and newlines
  (compact, and indented by two spaces), and ISO dates as \<open>toISOString\<close> writes them for
  the years 0000 to 9999. The parser takes its recursion depth from the length of the
  text. Nothing below is used in the statement of a general theorem.
\<close>

definition json_quote :: "string \<Rightarrow> string" where
  "json_quote s =
     [CHR 0x22] @
     concat (map (\<lambda>c. if c = CHR 0x22 then [CHR 0x5C, CHR 0x22]
                        else if c = CHR 0x5C then [CHR 0x5C, CHR 0x5C]
                        else if c = CHR 0x0A then [CHR 0x5C, CHR ''n'']
                        else [c]) s) @
     [CHR 0x22]"

definition show_int :: "int \<Rightarrow> string" where
  "show_int i = (if i < 0 then ''-'' @ show_nat (nat (- i)) else show_nat (nat i))"

definition bracket :: "bool \<Rightarrow> nat \<Rightarrow> string \<Rightarrow> string \<Rightarrow> string list \<Rightarrow> string" where
  "bracket pretty n l r items =
     (if items = [] then l @ r
      else if pretty
      then l @ ''\<newline>'' @ replicate (2 * (n + 1)) CHR '' '' @
           array_join items ('',\<newline>'' @ replicate (2 * (n + 1)) CHR '' '') @
           ''\<newline>'' @ replicate (2 * n) CHR '' '' @ r
      else l @ array_join items '','' @ r)"

fun json_show :: "bool \<Rightarrow> nat \<Rightarrow> json \<Rightarrow> string" where
  "json_show pretty n JNull = ''null''"
| "json_show pretty n (JBool b) = (if b then ''true'' else ''false'')"
| "json_show pretty n (JNum i) = show_int i"
| "json_show pretty n (JStr s) = json_quote s"
| "json_show pretty n (JArr xs) = bracket pretty n ''['' '']'' (map (json_show pretty (n + 1)) xs)"
| "json_show pretty n (JObj kvs) =
     bracket pretty n ''{'' ''}''
       (map (\<lambda>kv. json_quote (fst kv) @ (if pretty then '': '' else '':'') @
                   json_show pretty (n + 1) (snd kv)) kvs)"


definition is_ws :: "char \<Rightarrow> bool" where
  "is_ws c = (c = CHR '' '' \<or> c = CHR 0x0A \<or> c = CHR 0x0D \<or> c = CHR 0x09)"

definition skip_ws :: "string \<Rightarrow> string" where
  "skip_ws s = dropWhile is_ws s"

definition digit_value :: "char \<Rightarrow> nat option" where
  "digit_value c = map_of (zip ''0123456789'' [0, 1, 2, 3, 4, 5, 6, 7, 8, 9]) c"

fun parse_string_body :: "string \<Rightarrow> (string \<times> string) option" where
  "parse_string_body [] = None"
| "parse_string_body (c # cs) =
     (if c = CHR 0x22 then Some ([], cs)
      else if c = CHR 0x5C
      then (case cs of
              [] \<Rightarrow> None
            | e # cs' \<Rightarrow>
                (case map_of [(CHR 0x22, CHR 0x22), (CHR 0x5C, CHR 0x5C), (CHR ''/'', CHR ''/''),
                              (CHR ''n'', CHR 0x0A), (CHR ''r'', CHR 0x0D), (CHR ''t'', CHR 0x09)] e of
                   None \<Rightarrow> None
                 | Some ch \<Rightarrow>
                     (case parse_string_body cs' of
                        None \<Rightarrow> None
                      | Some (str, rest) \<Rightarrow> Some (ch # str, rest))))
      else (case parse_string_body cs of
              None \<Rightarrow> None
            | Some (str, rest) \<Rightarrow> Some (c # str, rest)))"

fun parse_digits :: "nat \<Rightarrow> string \<Rightarrow> nat \<times> string" where
  "parse_digits acc [] = (acc, [])"
| "parse_digits acc (c # cs) =
     (case digit_value c of
        None \<Rightarrow> (acc, c # cs)
      | Some d \<Rightarrow> parse_digits (10 * acc + d) cs)"

definition parse_number :: "string \<Rightarrow> (json \<times> string) option" where
  "parse_number s =
     (case s of
        [] \<Rightarrow> None
      | c # cs \<Rightarrow>
          if c = CHR ''-''
          then (case cs of
                  [] \<Rightarrow> None
                | d # _ \<Rightarrow>
                    if digit_value d = None then None
                    else (case parse_digits 0 cs of (n, rest) \<Rightarrow> Some (JNum (- int n), rest)))
          else if digit_value c = None then None
          else (case parse_digits 0 s of (n, rest) \<Rightarrow> Some (JNum (int n), rest)))"

fun parse_value :: "nat \<Rightarrow> string \<Rightarrow> (json \<times> string) option"
  and parse_elements :: "nat \<Rightarrow> json list \<Rightarrow> string \<Rightarrow> (json \<times> string) option"
  and parse_members :: "nat \<Rightarrow> (string \<times> json) list \<Rightarrow> string \<Rightarrow> (json \<times> string) option"
where
  "parse_value 0 s = None"
| "parse_value (Suc fuel) s =
     (if startsWith s ''null'' then Some (JNull, drop 4 s)
      else if startsWith s ''true'' then Some (JBool True, drop 4 s)
      else if startsWith s ''false'' then Some (JBool False, drop 5 s)
      else case s of
        [] \<Rightarrow> None
      | c # cs \<Rightarrow>
          if c = CHR 0x22
          then (case parse_string_body cs of
                  None \<Rightarrow> None
                | Some (str, rest) \<Rightarrow> Some (JStr str, rest))
          else if c = CHR ''[''
          then (case skip_ws cs of
                  [] \<Rightarrow> None
                | d # ds \<Rightarrow> if d = CHR '']'' then Some (JArr [], ds)
                            else parse_elements fuel [] (d # ds))
          else if c = CHR ''{''
          then (case skip_ws cs of
                  [] \<Rightarrow> None
                | d # ds \<Rightarrow> if d = CHR ''}'' then Some (JObj [], ds)
                            else parse_members fuel [] (d # ds))
          else parse_number s)"
| "parse_elements 0 acc s = None"
| "parse_elements (Suc fuel) acc s =
     (case parse_value fuel s of
        None \<Rightarrow> None
      | Some (v, rest) \<Rightarrow>
          (case skip_ws rest of
             [] \<Rightarrow> None
           | d # ds \<Rightarrow>
               if d = CHR '','' then parse_elements fuel (acc @ [v]) (skip_ws ds)
               else if d = CHR '']'' then Some (JArr (acc @ [v]), ds)
               else None))"
| "parse_members 0 acc s = None"
| "parse_members (Suc fuel) acc s =
     (case s of
        [] \<Rightarrow> None
      | q # cs \<Rightarrow>
          if q \<noteq> CHR 0x22 then None
          else (case parse_string_body cs of
                  None \<Rightarrow> None
                | Some (key, rest) \<Rightarrow>
                    (case skip_ws rest of
                       [] \<Rightarrow> None
                     | colon # r1 \<Rightarrow>
                         if colon \<noteq> CHR '':'' then None
                         else (case parse_value fuel (skip_ws r1) of
                                 None \<Rightarrow> None
                               | Some (v, r2) \<Rightarrow>
                                   (case skip_ws r2 of
                                      [] \<Rightarrow> None
                                    | d # ds \<Rightarrow>
                                        if d = CHR '','' then
                                          parse_members fuel (AList.update key v acc) (skip_ws ds)
                                        else if d = CHR ''}'' then
                                          Some (JObj (AList.update key v acc), ds)
                                        else None)))))"

definition json_parse :: "string \<Rightarrow> json option" where
  "json_parse s =
     (case parse_value (Suc (length s)) (skip_ws s) of
        None \<Rightarrow> None
      | Some (v, rest) \<Rightarrow> if skip_ws rest = [] then Some v else None)"


definition civil_from_days :: "int \<Rightarrow> int \<times> int \<times> int" where
  "civil_from_days days =
     (let z = days + 719468;
          era = z div 146097;
          doe = z mod 146097;
          yoe = (doe - doe div 1460 + doe div 36524 - doe div 146096) div 365;
          doy = doe - (365 * yoe + yoe div 4 - yoe div 100);
          mp = (5 * doy + 2) div 153;
          d = doy - (153 * mp + 2) div 5 + 1;
          m = (if mp < 10 then mp + 3 else mp - 9);
          y = yoe + era * 400 + (if m \<le> 2 then 1 else 0)
      in (y, m, d))"

definition days_from_civil :: "int \<Rightarrow> int \<Rightarrow> int \<Rightarrow> int" where
  "days_from_civil y m d =
     (let y' = (if m \<le> 2 then y - 1 else y);
          era = y' div 400;
          yoe = y' mod 400;
          doy = (153 * (if m > 2 then m - 3 else m + 9) + 2) div 5 + d - 1;
          doe = yoe * 365 + yoe div 4 - yoe div 100 + doy
      in era * 146097 + doe - 719468)"

definition pad_digits :: "nat \<Rightarrow> int \<Rightarrow> string" where
  "pad_digits width v =
     (let ds = show_nat (nat v) in replicate (width - length ds) CHR ''0'' @ ds)"

definition iso_string :: "int \<Rightarrow> string" where
  "iso_string t =
     (let days = t div 86400000;
          ms = t mod 86400000
      in case civil_from_days days of
           (y, m, d) \<Rightarrow>
             pad_digits 4 y @ ''-'' @ pad_digits 2 m @ ''-'' @ pad_digits 2 d @ ''T'' @
             pad_digits 2 (ms div 3600000) @ '':'' @
             pad_digits 2 (ms div 60000 mod 60) @ '':'' @
             pad_digits 2 (ms div 1000 mod 60) @ ''.'' @
             pad_digits 3 (ms mod 1000) @ ''Z'')"

definition number_at :: "string \<Rightarrow> nat \<Rightarrow> nat \<Rightarrow> int" where
  "number_at s i n = int (fst (parse_digits 0 (take n (drop i s))))"

definition parse_iso :: "string \<Rightarrow> date" where
  "parse_iso s =
     (let t = days_from_civil (number_at s 0 4) (number_at s 5 2) (number_at s 8 2) * 86400000
              + number_at s 11 2 * 3600000 + number_at s 14 2 * 60000
              + number_at s 17 2 * 1000 + number_at s 20 3
      in if iso_string t = s then Date t else InvalidDate)"

definition sample_new_Date :: "json option \<Rightarrow> date" where
  "sample_new_Date v =
     (case v of
        None \<Rightarrow> InvalidDate
      | Some JNull \<Rightarrow> Date 0
      | Some (JBool b) \<Rightarrow> Date (if b then 1 else 0)
      | Some (JNum n) \<Rightarrow> (if \<bar>n\<bar> \<le> 8640000000000000 then Date n else InvalidDate)
      | Some (JStr s) \<Rightarrow> parse_iso s
      | Some _ \<Rightarrow> InvalidDate)"

definition sample_runtime :: runtime where
  "sample_runtime =
     \<lparr>JSON_stringify = json_show False 0,
      JSON_stringify_pretty = json_show True 0,
      JSON_parse = json_parse,
      toISOString = iso_string,
      new_Date = sample_new_Date\<rparr>"

definition empty_filesystem :: filesystem where
  "empty_filesystem = \<lparr>files = Map.empty, dirs = {}, denied = {}\<rparr>"

definition sample_plan :: PlanFile where
  "sample_plan =
     \<lparr>pf_id = ''1a2b3c4d5e6f'',
      pf_slug = ''1a2b3c4d5e6f'',
      pf_createdAt = Date 1793622896789,
      pf_updatedAt = Date 1793622900000,
      pf_phase = design,
      pf_userRequest = ''add a login page'',
      pf_clarifications = [(''authentication-method'', JStr ''jwt''), (''pages'', JNum 2)],
      pf_implementationPlan = ''1. Add the form\<newline>2. Call the API'',
      pf_filesToModify = [''src/login.tsx'', ''src/api.ts''],
      pf_verificationSteps = [''run the tests'']\<rparr>"

text \<open>The planning state after \<open>enable()\<close> and four phase transitions.\<close>

definition sample_exit_state :: PlanningState where
  "sample_exit_state =
     fst (snd (transitionToNextPhase 1793622896004
       (fst (snd (transitionToNextPhase 1793622896003
          (fst (snd (transitionToNextPhase 1793622896002
             (fst (snd (transitionToNextPhase 1793622896001
                (fst (enable createInitialPlanningState)))))))))))))"

section \<open>Properties of the planning manager\<close>

lemma getNextPhase_simps:
  "getNextPhase initial_understanding = Some design"
  "getNextPhase design = Some review"
  "getNextPhase review = Some final_plan"
  "getNextPhase final_plan = Some exit"
  "getNextPhase exit = None"
  by (simp_all add: getNextPhase_def PLANNING_PHASE_ORDER_def)

lemma sample_exit_state_eq:
  "sample_exit_state =
     \<lparr>currentPhase = exit, planFile = None,
      phaseProgress = (\<lambda>p. \<lparr>completed = (p \<noteq> exit), steps = [], notes' = None\<rparr>),
      enabled = True\<rparr>"
proof -
  have "\<And>p. p \<noteq> initial_understanding \<Longrightarrow> p \<noteq> design \<Longrightarrow> p \<noteq> review \<Longrightarrow>
          p \<noteq> final_plan \<Longrightarrow> p = exit"
    by (metis PlanningPhase.exhaust)
  then show ?thesis
    by (auto simp add: sample_exit_state_def transitionToNextPhase_def enable_def
          createInitialPlanningState_def getNextPhase_simps Let_def fun_eq_iff)
qed

lemma array_includes_set: "array_includes xs x = (x \<in> set xs)"
  by (induction xs) auto

text \<open>
  C1 (as amended). With planning enabled and the current phase \<open>exit\<close>,
  \<open>transitionToNextPhase\<close> returns false, emits nothing, and leaves \<open>currentPhase\<close>,
  \<open>planFile\<close> and \<open>enabled\<close> as they were; of \<open>phaseProgress\<close> it changes one thing: the
  \<open>completed\<close> flag of the \<open>exit\<close> entry is set, because the current phase is marked
  completed before the next phase is looked up.
\<close>

theorem transition_from_exit:
  assumes "enabled s" and "currentPhase s = exit"
  shows "transitionToNextPhase now s =
           (False,
            s\<lparr>phaseProgress :=
                (phaseProgress s)(exit := (phaseProgress s exit)\<lparr>completed := True\<rparr>)\<rparr>,
            [])"
  using assms by (simp add: transitionToNextPhase_def getNextPhase_simps)

theorem transition_from_exit_witness:
  "enabled sample_exit_state \<and> currentPhase sample_exit_state = exit \<and>
   transitionToNextPhase 1793622896005 sample_exit_state =
     (False,
      sample_exit_state
        \<lparr>phaseProgress := (phaseProgress sample_exit_state)
            (exit := \<lparr>completed = True, steps = [], notes' = None\<rparr>)\<rparr>,
      [])"
proof -
  have e: "enabled sample_exit_state" and c: "currentPhase sample_exit_state = exit"
    by (simp_all add: sample_exit_state_eq)
  have p: "phaseProgress sample_exit_state exit = \<lparr>completed = False, steps = [], notes' = None\<rparr>"
    by (simp add: sample_exit_state_eq)
  from transition_from_exit [OF e c, of 1793622896005] e c p show ?thesis
    by simp
qed

text \<open>
  C1 as stated fails: in the state reached by \<open>enable()\<close> and four successful
  transitions (planning enabled, phase \<open>exit\<close>, the \<open>exit\<close> entry not completed), a
  fifth \<open>transitionToNextPhase\<close> returns false and leaves a state in which
  \<open>phaseProgress.exit.completed\<close> has turned true.
\<close>

theorem transition_from_exit_mutates:
  "enabled sample_exit_state \<and>
   currentPhase sample_exit_state = exit \<and>
   \<not> fst (transitionToNextPhase 1793622896005 sample_exit_state) \<and>
   \<not> completed (phaseProgress sample_exit_state exit) \<and>
   completed (phaseProgress (fst (snd (transitionToNextPhase 1793622896005 sample_exit_state)))
                exit) \<and>
   fst (snd (transitionToNextPhase 1793622896005 sample_exit_state)) \<noteq> sample_exit_state"
  by (auto simp add: sample_exit_state_eq transitionToNextPhase_def getNextPhase_simps
        dest: fun_cong [where x = exit])

text \<open>
  C2. With planning disabled \<open>isToolAllowed\<close> is true of every tool name and
  \<open>getAllowedTools\<close> is the empty list. With planning enabled \<open>getAllowedTools\<close> is the
  allow-list of the current phase and \<open>isToolAllowed t\<close> holds exactly when \<open>t\<close> is in
  it, that is: \<open>t\<close> is one of the four read-only tools and the phase is not \<open>exit\<close>, or
  \<open>t\<close> is \<open>write_plan_file\<close> and the phase is \<open>design\<close>. So \<open>write_plan_file\<close> is allowed
  in \<open>design\<close> only, every phase but \<open>exit\<close> has a non-empty list containing
  \<open>read_file\<close>, and in \<open>exit\<close> no tool is allowed.
\<close>

theorem tool_gate:
  "(\<not> enabled s \<longrightarrow> isToolAllowed s t \<and> getAllowedTools s = []) \<and>
   (enabled s \<longrightarrow>
      getAllowedTools s = PHASE_ALLOWED_TOOLS (currentPhase s) \<and>
      (isToolAllowed s t \<longleftrightarrow> t \<in> set (PHASE_ALLOWED_TOOLS (currentPhase s))) \<and>
      (isToolAllowed s t \<longleftrightarrow>
         (currentPhase s \<noteq> exit \<and>
            t \<in> {''read_file'', ''find_files'', ''search_file_contents'', ''list_directory''}) \<or>
         (currentPhase s = design \<and> t = ''write_plan_file'')) \<and>
      (isToolAllowed s ''write_plan_file'' \<longleftrightarrow> currentPhase s = design) \<and>
      (currentPhase s \<noteq> exit \<longrightarrow>
         getAllowedTools s \<noteq> [] \<and> isToolAllowed s ''read_file'' \<and>
         ''read_file'' \<in> set (getAllowedTools s)) \<and>
      (currentPhase s = exit \<longrightarrow> \<not> isToolAllowed s t \<and> getAllowedTools s = []))"
  by (cases "currentPhase s")
     (auto simp add: isToolAllowed_def getAllowedTools_def isToolAllowedInPhase_def
        array_includes_set)

theorem tool_gate_witness:
  "isToolAllowed createInitialPlanningState ''execute_bash'' \<and>
   getAllowedTools createInitialPlanningState = [] \<and>
   isToolAllowed (createInitialPlanningState\<lparr>enabled := True, currentPhase := design\<rparr>)
     ''write_plan_file'' \<and>
   \<not> isToolAllowed (createInitialPlanningState\<lparr>enabled := True, currentPhase := review\<rparr>)
       ''write_plan_file'' \<and>
   isToolAllowed (createInitialPlanningState\<lparr>enabled := True, currentPhase := review\<rparr>)
     ''read_file'' \<and>
   \<not> isToolAllowed (createInitialPlanningState\<lparr>enabled := True, currentPhase := exit\<rparr>)
       ''read_file'' \<and>
   getAllowedTools (createInitialPlanningState\<lparr>enabled := True, currentPhase := exit\<rparr>) = []"
  using tool_gate [of createInitialPlanningState "''execute_bash''"]
    tool_gate [of "createInitialPlanningState\<lparr>enabled := True, currentPhase := design\<rparr>"
      "''write_plan_file''"]
    tool_gate [of "createInitialPlanningState\<lparr>enabled := True, currentPhase := review\<rparr>"
      "''write_plan_file''"]
    tool_gate [of "createInitialPlanningState\<lparr>enabled := True, currentPhase := exit\<rparr>"
      "''read_file''"]
  by (simp add: createInitialPlanningState_def)

section \<open>Writing the plan files\<close>

text \<open>
  Both plan files stand directly in the plan directory when the slug holds no slash
  (generated slugs are hexadecimal), so the two writes of \<open>savePlanFile\<close> find the
  directory that \<open>ensurePlanDirectory\<close> has just made.
\<close>

lemma dirname_join:
  assumes "a \<noteq> []" and "CHR ''/'' \<notin> set b"
  shows "dirname (path_join a b) = a"
proof -
  have "dropWhile (\<lambda>c. c \<noteq> CHR ''/'') (rev b @ CHR ''/'' # rev a) = CHR ''/'' # rev a"
    using assms(2) by (auto simp add: dropWhile_append3)
  then have "rev (tl (dropWhile (\<lambda>c. c \<noteq> CHR ''/'') (rev (path_join a b)))) = a"
    by (simp add: path_join_def)
  with assms(1) show ?thesis
    by (simp add: dirname_def Let_def)
qed

lemma hex_digit_no_slash: "hex_digit n \<noteq> CHR ''/''"
proof -
  have "hex_digit n \<in> set ''0123456789abcdef''"
    unfolding hex_digit_def by (rule nth_mem) simp
  then show ?thesis by auto
qed

lemma toString_hex_no_slash: "CHR ''/'' \<notin> set (toString_hex bytes)"
  by (induction bytes) (simp_all add: toString_hex_def hex_digit_no_slash [symmetric])

lemma plan_directory_not_empty: "getPlanDirectory cwd \<noteq> []"
  by (simp add: getPlanDirectory_def path_join_def)

lemma dirname_plan_paths:
  assumes "CHR ''/'' \<notin> set slug"
  shows "dirname (getPlanMdPath cwd slug) = getPlanDirectory cwd"
    and "dirname (getPlanJsonPath cwd slug) = getPlanDirectory cwd"
  using assms
  by (simp_all add: getPlanMdPath_def getPlanJsonPath_def dirname_join plan_directory_not_empty
        PLAN_MD_EXT_def PLAN_JSON_EXT_def)

lemma savePlanFile_succeeds:
  assumes "isValidProjectDirectory home cwd"
    and "getPlanDirectory cwd \<notin> denied fs"
    and "getPlanMdPath cwd (pf_slug p) \<notin> denied fs"
    and "getPlanJsonPath cwd (pf_slug p) \<notin> denied fs"
    and "CHR ''/'' \<notin> set (pf_slug p)"
    and "pf_createdAt p = Date c" and "pf_updatedAt p = Date u"
  shows "\<exists>fs'. savePlanFile rt home fs cwd p md = (Inr (), fs')"
  using assms
  by (cases md)
     (simp_all add: savePlanFile_def ensurePlanDirectory_def mkdir_recursive_def writeFile_def
        generatePlanMarkdown_def date_toISOString_def dirname_plan_paths Let_def)

lemma savePlanFile_result:
  assumes "savePlanFile rt home fs cwd p md = (Inr (), fs')"
  shows "files fs' (getPlanJsonPath cwd (pf_slug p)) =
           Some (JSON_stringify_pretty rt (PlanFile_toJSON rt p))"
    and "getPlanJsonPath cwd (pf_slug p) \<notin> denied fs'"
    and "getPlanDirectory cwd \<in> dirs fs'"
    and "isValidProjectDirectory home cwd"
  using assms
  by (auto simp add: savePlanFile_def ensurePlanDirectory_def mkdir_recursive_def writeFile_def
        Let_def split: if_splits sum.splits option.splits)

section \<open>Identifiers of plan records\<close>

lemma length_toString_hex: "length (toString_hex bytes) = 2 * length bytes"
  by (induction bytes) (simp_all add: toString_hex_def)

text \<open>
  C4 (as amended). Every record the facade's \<open>createPlan\<close> returns has \<open>id\<close> equal to
  \<open>slug\<close> (and \<open>createPlan\<close> does return one in a project directory whose files can be
  written). The planning manager's \<open>createPlanFile\<close> instead gives \<open>id\<close> the value of
  \<open>randomUUID()\<close> and \<open>slug\<close> the twelve hexadecimal digits of \<open>randomBytes(6)\<close>; a UUID
  has 36 characters, so there \<open>id\<close> and \<open>slug\<close> differ.
\<close>

theorem plan_record_ids:
  "(\<forall>p fs'. createPlan rt home fs cwd randomBytes6 now request = (Inr p, fs') \<longrightarrow>
       pf_id p = pf_slug p \<and> pf_slug p = toString_hex randomBytes6) \<and>
   (isValidProjectDirectory home cwd \<and>
    getPlanDirectory cwd \<notin> denied fs \<and>
    getPlanMdPath cwd (toString_hex randomBytes6) \<notin> denied fs \<and>
    getPlanJsonPath cwd (toString_hex randomBytes6) \<notin> denied fs \<longrightarrow>
      (\<exists>p fs'. createPlan rt home fs cwd randomBytes6 now request = (Inr p, fs'))) \<and>
   pf_id (fst (createPlanFile uuid randomBytes6 now s request)) = uuid \<and>
   pf_slug (fst (createPlanFile uuid randomBytes6 now s request)) = toString_hex randomBytes6 \<and>
   (length uuid = 36 \<and> length randomBytes6 = 6 \<longrightarrow>
      pf_id (fst (createPlanFile uuid randomBytes6 now s request)) \<noteq>
      pf_slug (fst (createPlanFile uuid randomBytes6 now s request)))"
proof (intro conjI allI impI)
  fix p fs'
  assume "createPlan rt home fs cwd randomBytes6 now request = (Inr p, fs')"
  then show "pf_id p = pf_slug p" and "pf_slug p = toString_hex randomBytes6"
    by (auto simp add: createPlan_def generateSlug_def Let_def split: if_splits prod.splits sum.splits)
next
  assume "isValidProjectDirectory home cwd \<and>
    getPlanDirectory cwd \<notin> denied fs \<and>
    getPlanMdPath cwd (toString_hex randomBytes6) \<notin> denied fs \<and>
    getPlanJsonPath cwd (toString_hex randomBytes6) \<notin> denied fs"
  then have "\<exists>fs'. savePlanFile rt home fs cwd
                 \<lparr>pf_id = toString_hex randomBytes6, pf_slug = toString_hex randomBytes6,
                  pf_createdAt = Date now, pf_updatedAt = Date now,
                  pf_phase = initial_understanding, pf_userRequest = request,
                  pf_clarifications = [], pf_implementationPlan = [],
                  pf_filesToModify = [], pf_verificationSteps = []\<rparr> None = (Inr (), fs')"
    by (intro savePlanFile_succeeds [where c = now and u = now])
       (simp_all add: toString_hex_no_slash)
  moreover assume "isValidProjectDirectory home cwd \<and>
    getPlanDirectory cwd \<notin> denied fs \<and>
    getPlanMdPath cwd (toString_hex randomBytes6) \<notin> denied fs \<and>
    getPlanJsonPath cwd (toString_hex randomBytes6) \<notin> denied fs"
  ultimately show "\<exists>p fs'. createPlan rt home fs cwd randomBytes6 now request = (Inr p, fs')"
    by (auto simp add: createPlan_def generateSlug_def Let_def)
next
  show "pf_id (fst (createPlanFile uuid randomBytes6 now s request)) = uuid"
    by (simp add: createPlanFile_def Let_def)
  show "pf_slug (fst (createPlanFile uuid randomBytes6 now s request)) = toString_hex randomBytes6"
    by (simp add: createPlanFile_def generateSlug_def Let_def)
next
  assume "length uuid = 36 \<and> length randomBytes6 = 6"
  then have "length (pf_id (fst (createPlanFile uuid randomBytes6 now s request))) \<noteq>
             length (pf_slug (fst (createPlanFile uuid randomBytes6 now s request)))"
    by (simp add: createPlanFile_def generateSlug_def Let_def length_toString_hex)
  then show "pf_id (fst (createPlanFile uuid randomBytes6 now s request)) \<noteq>
      pf_slug (fst (createPlanFile uuid randomBytes6 now s request))"
    by auto
qed

lemma hex_example: "toString_hex [0x1a, 0x2b, 0x3c, 0x4d, 0x5e, 0x6f] = ''1a2b3c4d5e6f''"
  by (simp add: toString_hex_def hex_digit_def)

text \<open>
  C4 as stated fails for \<open>createPlanFile\<close>: with planning enabled, the UUID and the six
  random bytes below, the record has a 36-character \<open>id\<close> and the slug \<open>1a2b3c4d5e6f\<close>.
\<close>

theorem createPlanFile_id_differs:
  "pf_id (fst (createPlanFile ''123e4567-e89b-42d3-a456-426614174000''
                 [0x1a, 0x2b, 0x3c, 0x4d, 0x5e, 0x6f] 1793622896789
                 (fst (enable createInitialPlanningState)) ''add a login page''))
     = ''123e4567-e89b-42d3-a456-426614174000'' \<and>
   pf_slug (fst (createPlanFile ''123e4567-e89b-42d3-a456-426614174000''
                   [0x1a, 0x2b, 0x3c, 0x4d, 0x5e, 0x6f] 1793622896789
                   (fst (enable createInitialPlanningState)) ''add a login page''))
     = ''1a2b3c4d5e6f'' \<and>
   pf_id (fst (createPlanFile ''123e4567-e89b-42d3-a456-426614174000''
                 [0x1a, 0x2b, 0x3c, 0x4d, 0x5e, 0x6f] 1793622896789
                 (fst (enable createInitialPlanningState)) ''add a login page''))
     \<noteq> pf_slug (fst (createPlanFile ''123e4567-e89b-42d3-a456-426614174000''
                       [0x1a, 0x2b, 0x3c, 0x4d, 0x5e, 0x6f] 1793622896789
                       (fst (enable createInitialPlanningState)) ''add a login page''))"
  by (simp add: createPlanFile_def generateSlug_def hex_example Let_def)

theorem plan_record_ids_witness:
  "(\<exists>p fs'. createPlan sample_runtime ''/home/alice'' empty_filesystem ''/srv/project''
               [0x1a, 0x2b, 0x3c, 0x4d, 0x5e, 0x6f] 1793622896789 ''add a login page'' = (Inr p, fs') \<and>
             pf_id p = ''1a2b3c4d5e6f'' \<and> pf_slug p = ''1a2b3c4d5e6f'') \<and>
   length ''123e4567-e89b-42d3-a456-426614174000'' = 36 \<and>
   length [0x1a, 0x2b, 0x3c, 0x4d, 0x5e, 0x6f :: 8 word] = 6 \<and>
   pf_id (fst (createPlanFile ''123e4567-e89b-42d3-a456-426614174000''
                 [0x1a, 0x2b, 0x3c, 0x4d, 0x5e, 0x6f] 1793622896789
                 createInitialPlanningState ''add a login page''))
     \<noteq> pf_slug (fst (createPlanFile ''123e4567-e89b-42d3-a456-426614174000''
                       [0x1a, 0x2b, 0x3c, 0x4d, 0x5e, 0x6f] 1793622896789
                       createInitialPlanningState ''add a login page''))"
proof -
  have valid: "isValidProjectDirectory ''/home/alice'' ''/srv/project''"
    by (simp add: isValidProjectDirectory_def replace_backslashes_def)
  have nd: "denied empty_filesystem = {}"
    by (simp add: empty_filesystem_def)
  note t = plan_record_ids [of sample_runtime "''/home/alice''" empty_filesystem "''/srv/project''"
      "[0x1a, 0x2b, 0x3c, 0x4d, 0x5e, 0x6f]" 1793622896789 "''add a login page''"
      "''123e4567-e89b-42d3-a456-426614174000''" createInitialPlanningState]
  from t valid nd obtain p fs' where
    c: "createPlan sample_runtime ''/home/alice'' empty_filesystem ''/srv/project''
               [0x1a, 0x2b, 0x3c, 0x4d, 0x5e, 0x6f] 1793622896789 ''add a login page'' = (Inr p, fs')"
    by auto
  with t have "pf_id p = pf_slug p" "pf_slug p = toString_hex [0x1a, 0x2b, 0x3c, 0x4d, 0x5e, 0x6f]"
    by blast+
  with c have first: "\<exists>p fs'. createPlan sample_runtime ''/home/alice'' empty_filesystem ''/srv/project''
               [0x1a, 0x2b, 0x3c, 0x4d, 0x5e, 0x6f] 1793622896789 ''add a login page'' = (Inr p, fs') \<and>
             pf_id p = ''1a2b3c4d5e6f'' \<and> pf_slug p = ''1a2b3c4d5e6f''"
    by (auto simp add: hex_example)
  have len: "length ''123e4567-e89b-42d3-a456-426614174000'' = 36 \<and>
             length [0x1a, 0x2b, 0x3c, 0x4d, 0x5e, 0x6f :: 8 word] = 6"
    by simp
  with t have "pf_id (fst (createPlanFile ''123e4567-e89b-42d3-a456-426614174000''
                 [0x1a, 0x2b, 0x3c, 0x4d, 0x5e, 0x6f] 1793622896789
                 createInitialPlanningState ''add a login page''))
     \<noteq> pf_slug (fst (createPlanFile ''123e4567-e89b-42d3-a456-426614174000''
                       [0x1a, 0x2b, 0x3c, 0x4d, 0x5e, 0x6f] 1793622896789
                       createInitialPlanningState ''add a login page''))"
    by blast
  with first len show ?thesis by blast
qed

section \<open>Order of the generated questions\<close>

lemma insert_by_insort_key:
  "insert_by (sortByKeywordMatch r) x ys = insort_key (\<lambda>q. - getKeywordCount (q_id q) r) x ys"
  by (induction ys) (simp_all add: sortByKeywordMatch_def Let_def)

lemma array_sort_sort_key:
  "array_sort (sortByKeywordMatch r) xs = sort_key (\<lambda>q. - getKeywordCount (q_id q) r) xs"
  by (induction xs) (simp_all add: array_sort_def sort_key_def insert_by_insort_key)

lemma some_iff: "some P xs = (\<exists>x \<in> set xs. P x)"
  by (induction xs) auto

lemma find_confirmation:
  "find (\<lambda>t. ct_id t = ''assumptions-confirmation'') CONFIRMATION_TEMPLATES =
     Some (hd CONFIRMATION_TEMPLATES)"
  by (simp add: CONFIRMATION_TEMPLATES_def)

lemma confirmation_id: "ct_id (hd CONFIRMATION_TEMPLATES) = ''assumptions-confirmation''"
  by (simp add: CONFIRMATION_TEMPLATES_def)

lemma findMatchingQuestions_parts:
  "findMatchingQuestions rt r =
     map (\<lambda>t. \<lparr>q_id = at_id t, q_type = ambiguity, q_template = at_template t r,
                q_options = Some (at_options t), q_followupQuestions = None,
                q_allowSkip = Some True, q_allowMultiple = None\<rparr>)
       (filter (\<lambda>t. some (\<lambda>kw. str_includes (toLowerCase r) kw) (at_keywords t))
          AMBIGUITY_TEMPLATES) @
     map (\<lambda>t. \<lparr>q_id = dt_id t, q_type = decision, q_template = dt_template t r,
                q_options = Some (dt_options t), q_followupQuestions = None,
                q_allowSkip = Some True, q_allowMultiple = Some (dt_allowMultiple t)\<rparr>)
       (filter (\<lambda>t. some (\<lambda>kw. str_includes (toLowerCase r) kw) (dt_keywords t))
          DECISION_TEMPLATES) @
     (if some (\<lambda>kw. str_includes (toLowerCase r) kw)
           [''create'', ''build'', ''implement'', ''add'', ''develop'']
      then [\<lparr>q_id = ''assumptions-confirmation'', q_type = confirmation,
             q_template = ct_template (hd CONFIRMATION_TEMPLATES) rt
                [(''request'', JStr r), (''scope'', JStr ''current task'')],
             q_options = None, q_followupQuestions = None, q_allowSkip = Some False,
             q_allowMultiple = None\<rparr>] else [])"
  unfolding findMatchingQuestions_def Let_def
  by (simp only: find_confirmation option.case confirmation_id)

lemma matching_confirmation:
  "filter (\<lambda>q. q_type q = confirmation) (findMatchingQuestions rt r) =
     (if some (\<lambda>kw. str_includes (toLowerCase r) kw)
           [''create'', ''build'', ''implement'', ''add'', ''develop'']
      then [\<lparr>q_id = ''assumptions-confirmation'', q_type = confirmation,
             q_template = ct_template (hd CONFIRMATION_TEMPLATES) rt
                [(''request'', JStr r), (''scope'', JStr ''current task'')],
             q_options = None, q_followupQuestions = None, q_allowSkip = Some False,
             q_allowMultiple = None\<rparr>] else [])"
  unfolding findMatchingQuestions_parts
  by (simp del: some.simps)

lemma matching_decision:
  "filter (\<lambda>q. q_type q = decision) (findMatchingQuestions rt r) =
     map (\<lambda>t. \<lparr>q_id = dt_id t, q_type = decision, q_template = dt_template t r,
                q_options = Some (dt_options t), q_followupQuestions = None,
                q_allowSkip = Some True, q_allowMultiple = Some (dt_allowMultiple t)\<rparr>)
       (filter (\<lambda>t. some (\<lambda>kw. str_includes (toLowerCase r) kw) (dt_keywords t))
          DECISION_TEMPLATES)"
  unfolding findMatchingQuestions_parts
  by (simp add: filter_map o_def del: some.simps)

lemma matching_ambiguity:
  "filter (\<lambda>q. q_type q = ambiguity) (findMatchingQuestions rt r) =
     map (\<lambda>t. \<lparr>q_id = at_id t, q_type = ambiguity, q_template = at_template t r,
                q_options = Some (at_options t), q_followupQuestions = None,
                q_allowSkip = Some True, q_allowMultiple = None\<rparr>)
       (filter (\<lambda>t. some (\<lambda>kw. str_includes (toLowerCase r) kw) (at_keywords t))
          AMBIGUITY_TEMPLATES)"
  unfolding findMatchingQuestions_parts
  by (simp add: filter_map o_def del: some.simps)

lemma queue_generateQuestions:
  "questionQueue (qm_state (generateQuestions rt m r f)) =
     take (maxQuestions (qm_config m)) (prioritizeQuestions (findMatchingQuestions rt r) r)"
  by (simp add: generateQuestions_def Let_def split: list.splits)


lemma ambiguity_ids:
  "map at_id AMBIGUITY_TEMPLATES = [''performance-requirements'', ''error-handling'']"
  by (simp add: AMBIGUITY_TEMPLATES_def)

lemma decision_ids:
  "map dt_id DECISION_TEMPLATES =
     [''architecture-pattern'', ''database-choice'', ''authentication-method'']"
  by (simp add: DECISION_TEMPLATES_def)

lemma find_by_key:
  "distinct (map f xs) \<Longrightarrow> t \<in> set xs \<Longrightarrow> find (\<lambda>x. f x = f t) xs = Some t"
  by (induction xs) (auto simp add: image_iff)

lemma find_no_key: "k \<notin> set (map f xs) \<Longrightarrow> find (\<lambda>x. f x = k) xs = None"
  by (induction xs) auto

lemma keyword_count_ambiguity:
  assumes "t \<in> set AMBIGUITY_TEMPLATES"
  shows "getKeywordCount (at_id t) r =
           int (length (filter (\<lambda>kw. str_includes (toLowerCase r) kw) (at_keywords t)))"
proof -
  have "distinct (map at_id AMBIGUITY_TEMPLATES)"
    by (simp add: ambiguity_ids)
  then have "find (\<lambda>x. at_id x = at_id t) AMBIGUITY_TEMPLATES = Some t"
    using assms by (rule find_by_key)
  then show ?thesis
    by (simp add: getKeywordCount_def Let_def)
qed

lemma keyword_count_decision:
  assumes "t \<in> set DECISION_TEMPLATES"
  shows "getKeywordCount (dt_id t) r =
           int (length (filter (\<lambda>kw. str_includes (toLowerCase r) kw) (dt_keywords t)))"
proof -
  have "dt_id t \<in> set (map dt_id DECISION_TEMPLATES)"
    using assms by simp
  then have "dt_id t \<notin> set (map at_id AMBIGUITY_TEMPLATES)"
    unfolding decision_ids ambiguity_ids by auto
  then have none: "find (\<lambda>x. at_id x = dt_id t) AMBIGUITY_TEMPLATES = None"
    by (rule find_no_key)
  have "distinct (map dt_id DECISION_TEMPLATES)"
    by (simp add: decision_ids)
  then have "find (\<lambda>x. dt_id x = dt_id t) DECISION_TEMPLATES = Some t"
    using assms by (rule find_by_key)
  with none show ?thesis
    by (simp add: getKeywordCount_def Let_def)
qed

lemma prioritize_sorted:
  "prioritizeQuestions qs r =
     filter (\<lambda>q. q_type q = confirmation) qs @
     sort_key (\<lambda>q. - getKeywordCount (q_id q) r) (filter (\<lambda>q. q_type q = decision) qs) @
     sort_key (\<lambda>q. - getKeywordCount (q_id q) r) (filter (\<lambda>q. q_type q = ambiguity) qs)"
  by (simp add: prioritizeQuestions_def Let_def array_sort_sort_key)

lemma sorted_descending:
  "sorted_wrt (\<lambda>a b. getKeywordCount (q_id b) r \<le> getKeywordCount (q_id a) r)
     (sort_key (\<lambda>q. - getKeywordCount (q_id q) r) xs)"
proof -
  have "sorted (map (\<lambda>q. - getKeywordCount (q_id q) r)
                 (sort_key (\<lambda>q. - getKeywordCount (q_id q) r) xs))"
    by (rule sorted_sort_key)
  then show ?thesis
    by (simp add: sorted_map)
qed

lemma stable_by_count:
  "filter (\<lambda>q. getKeywordCount (q_id q) r = k) (sort_key (\<lambda>q. - getKeywordCount (q_id q) r) xs) =
   filter (\<lambda>q. getKeywordCount (q_id q) r = k) xs"
  using sort_key_stable [of "\<lambda>q. - getKeywordCount (q_id q) r" "- k" xs] by simp


lemma example_lower:
  "toLowerCase ''optimize performance of the database layer'' =
     ''optimize performance of the database layer''"
  by code_simp

lemma example_ambiguity:
  "map at_id (filter (\<lambda>t. some (\<lambda>kw. str_includes ''optimize performance of the database layer'' kw)
              (at_keywords t)) AMBIGUITY_TEMPLATES) = [''performance-requirements'']"
  by (simp add: AMBIGUITY_TEMPLATES_def)

lemma example_decision:
  "map dt_id (filter (\<lambda>t. some (\<lambda>kw. str_includes ''optimize performance of the database layer'' kw)
              (dt_keywords t)) DECISION_TEMPLATES) = [''database-choice'']"
  by (simp add: DECISION_TEMPLATES_def)

lemma example_confirmation:
  "\<not> some (\<lambda>kw. str_includes ''optimize performance of the database layer'' kw)
       [''create'', ''build'', ''implement'', ''add'', ''develop'']"
  by simp

lemma sort_key_short: "length xs \<le> 1 \<Longrightarrow> sort_key f xs = xs"
  by (cases xs) (simp_all add: sort_key_def)

lemma decision_catalog_order:
  "map q_id (filter (\<lambda>q. q_type q = decision) (findMatchingQuestions rt r)) =
     map dt_id (filter (\<lambda>t. some (\<lambda>kw. str_includes (toLowerCase r) kw) (dt_keywords t))
                  DECISION_TEMPLATES)"
  unfolding matching_decision by (simp add: o_def)

lemma ambiguity_catalog_order:
  "map q_id (filter (\<lambda>q. q_type q = ambiguity) (findMatchingQuestions rt r)) =
     map at_id (filter (\<lambda>t. some (\<lambda>kw. str_includes (toLowerCase r) kw) (at_keywords t))
                  AMBIGUITY_TEMPLATES)"
  unfolding matching_ambiguity by (simp add: o_def)

lemma types_of_filter: "map q_type (filter (\<lambda>q. q_type q = ty) qs) = replicate (length (filter (\<lambda>q. q_type q = ty) qs)) ty"
  by (induction qs) simp_all

lemma example_queue:
  "map q_id
     (prioritizeQuestions
        (findMatchingQuestions rt ''optimize performance of the database layer'')
        ''optimize performance of the database layer'') =
   [''database-choice'', ''performance-requirements''] \<and>
   map q_type
     (prioritizeQuestions
        (findMatchingQuestions rt ''optimize performance of the database layer'')
        ''optimize performance of the database layer'') =
   [decision, ambiguity]"
proof -
  let ?r = "''optimize performance of the database layer''"
  let ?qs = "findMatchingQuestions rt ?r"
  let ?f = "\<lambda>q. - getKeywordCount (q_id q) ?r"
  have c: "filter (\<lambda>q. q_type q = confirmation) ?qs = []"
    by (simp only: matching_confirmation example_lower example_confirmation if_False)
  have d: "map q_id (filter (\<lambda>q. q_type q = decision) ?qs) = [''database-choice'']"
    by (simp only: decision_catalog_order example_lower example_decision)
  have a: "map q_id (filter (\<lambda>q. q_type q = ambiguity) ?qs) = [''performance-requirements'']"
    by (simp only: ambiguity_catalog_order example_lower example_ambiguity)
  from d have ld: "length (filter (\<lambda>q. q_type q = decision) ?qs) = 1"
    using length_map [of q_id "filter (\<lambda>q. q_type q = decision) ?qs"] by simp
  from a have la: "length (filter (\<lambda>q. q_type q = ambiguity) ?qs) = 1"
    using length_map [of q_id "filter (\<lambda>q. q_type q = ambiguity) ?qs"] by simp
  have sd: "sort_key ?f (filter (\<lambda>q. q_type q = decision) ?qs) = filter (\<lambda>q. q_type q = decision) ?qs"
    using ld by (simp add: sort_key_short)
  have sa: "sort_key ?f (filter (\<lambda>q. q_type q = ambiguity) ?qs) = filter (\<lambda>q. q_type q = ambiguity) ?qs"
    using la by (simp add: sort_key_short)
  have td: "map q_type (filter (\<lambda>q. q_type q = decision) ?qs) = [decision]"
    using ld by (simp add: types_of_filter)
  have ta: "map q_type (filter (\<lambda>q. q_type q = ambiguity) ?qs) = [ambiguity]"
    using la by (simp add: types_of_filter)
  have ids: "map q_id (prioritizeQuestions ?qs ?r) = [''database-choice'', ''performance-requirements'']"
    by (simp only: prioritize_sorted c sd sa map_append d a append.simps)
  have tys: "map q_type (prioritizeQuestions ?qs ?r) = [decision, ambiguity]"
    by (simp only: prioritize_sorted c sd sa map_append td ta append.simps)
  from ids tys show ?thesis by simp
qed

text \<open>
  C5. The queue \<open>generateQuestions\<close> leaves is the first \<open>maxQuestions\<close> (10 by default)
  elements of: the matched confirmation questions, then the matched decision questions,
  then the matched ambiguity questions. Each of the last two groups is a permutation of
  the matched questions of its type, in descending order of the number of matched
  keywords, questions with the same number keeping the order they were matched in; that
  order is the catalog's, and the number \<open>getKeywordCount\<close> gives for a catalog entry is
  the number of its keywords the lower-cased request contains. For the request
  \<open>optimize performance of the database layer\<close> (and a maximum of at least two) the
  queue is the \<open>database-choice\<close> decision question followed by the
  \<open>performance-requirements\<close> ambiguity question, with no confirmation question.
\<close>

theorem generateQuestions_priority:
  fixes rt :: runtime and m :: QuestionManager and request :: string and files :: "string list"
  defines "matched \<equiv> findMatchingQuestions rt request"
    and "cnt \<equiv> \<lambda>q. getKeywordCount (q_id q) request"
    and "hits \<equiv> \<lambda>kws. length (filter (\<lambda>kw. str_includes (toLowerCase request) kw) kws)"
  shows
    "(\<exists>cs ds as.
        questionQueue (qm_state (generateQuestions rt m request files)) =
          take (maxQuestions (qm_config m)) (cs @ ds @ as) \<and>
        cs = filter (\<lambda>q. q_type q = confirmation) matched \<and>
        mset ds = mset (filter (\<lambda>q. q_type q = decision) matched) \<and>
        mset as = mset (filter (\<lambda>q. q_type q = ambiguity) matched) \<and>
        sorted_wrt (\<lambda>a b. cnt b \<le> cnt a) ds \<and>
        sorted_wrt (\<lambda>a b. cnt b \<le> cnt a) as \<and>
        (\<forall>k. filter (\<lambda>q. cnt q = k) ds =
               filter (\<lambda>q. cnt q = k) (filter (\<lambda>q. q_type q = decision) matched)) \<and>
        (\<forall>k. filter (\<lambda>q. cnt q = k) as =
               filter (\<lambda>q. cnt q = k) (filter (\<lambda>q. q_type q = ambiguity) matched))) \<and>
     map q_id (filter (\<lambda>q. q_type q = decision) matched) =
       map dt_id (filter (\<lambda>t. 0 < hits (dt_keywords t)) DECISION_TEMPLATES) \<and>
     map q_id (filter (\<lambda>q. q_type q = ambiguity) matched) =
       map at_id (filter (\<lambda>t. 0 < hits (at_keywords t)) AMBIGUITY_TEMPLATES) \<and>
     (\<forall>t \<in> set DECISION_TEMPLATES. getKeywordCount (dt_id t) request = int (hits (dt_keywords t))) \<and>
     (\<forall>t \<in> set AMBIGUITY_TEMPLATES. getKeywordCount (at_id t) request = int (hits (at_keywords t))) \<and>
     maxQuestions DEFAULT_QUESTION_CONFIG = 10 \<and>
     (2 \<le> maxQuestions (qm_config m) \<longrightarrow>
        map q_id (questionQueue (qm_state
          (generateQuestions rt m ''optimize performance of the database layer'' files))) =
          [''database-choice'', ''performance-requirements''] \<and>
        map q_type (questionQueue (qm_state
          (generateQuestions rt m ''optimize performance of the database layer'' files))) =
          [decision, ambiguity])"
proof (intro conjI)
  let ?f = "\<lambda>q. - getKeywordCount (q_id q) request"
  let ?cs = "filter (\<lambda>q. q_type q = confirmation) matched"
  let ?ds = "sort_key ?f (filter (\<lambda>q. q_type q = decision) matched)"
  let ?as = "sort_key ?f (filter (\<lambda>q. q_type q = ambiguity) matched)"
  have q: "questionQueue (qm_state (generateQuestions rt m request files)) =
          take (maxQuestions (qm_config m)) (?cs @ ?ds @ ?as)"
    by (simp only: queue_generateQuestions prioritize_sorted matched_def)
  have md: "mset ?ds = mset (filter (\<lambda>q. q_type q = decision) matched)"
    and ma: "mset ?as = mset (filter (\<lambda>q. q_type q = ambiguity) matched)"
    by simp_all
  have sd: "sorted_wrt (\<lambda>a b. cnt b \<le> cnt a) ?ds"
    and sa: "sorted_wrt (\<lambda>a b. cnt b \<le> cnt a) ?as"
    unfolding cnt_def by (rule sorted_descending)+
  have std: "\<forall>k. filter (\<lambda>q. cnt q = k) ?ds =
               filter (\<lambda>q. cnt q = k) (filter (\<lambda>q. q_type q = decision) matched)"
    and sta: "\<forall>k. filter (\<lambda>q. cnt q = k) ?as =
               filter (\<lambda>q. cnt q = k) (filter (\<lambda>q. q_type q = ambiguity) matched)"
    unfolding cnt_def by (simp_all only: stable_by_count simp_thms)
  show "\<exists>cs ds as.
        questionQueue (qm_state (generateQuestions rt m request files)) =
          take (maxQuestions (qm_config m)) (cs @ ds @ as) \<and>
        cs = filter (\<lambda>q. q_type q = confirmation) matched \<and>
        mset ds = mset (filter (\<lambda>q. q_type q = decision) matched) \<and>
        mset as = mset (filter (\<lambda>q. q_type q = ambiguity) matched) \<and>
        sorted_wrt (\<lambda>a b. cnt b \<le> cnt a) ds \<and>
        sorted_wrt (\<lambda>a b. cnt b \<le> cnt a) as \<and>
        (\<forall>k. filter (\<lambda>q. cnt q = k) ds =
               filter (\<lambda>q. cnt q = k) (filter (\<lambda>q. q_type q = decision) matched)) \<and>
        (\<forall>k. filter (\<lambda>q. cnt q = k) as =
               filter (\<lambda>q. cnt q = k) (filter (\<lambda>q. q_type q = ambiguity) matched))"
    by (rule exI [of _ ?cs], rule exI [of _ ?ds], rule exI [of _ ?as])
       (intro conjI q refl md ma sd sa std sta)
next
  have h: "\<And>kws. (0 < hits kws) = some (\<lambda>kw. str_includes (toLowerCase request) kw) kws"
    unfolding hits_def by (simp add: some_iff filter_empty_conv)
  show "map q_id (filter (\<lambda>q. q_type q = decision) matched) =
       map dt_id (filter (\<lambda>t. 0 < hits (dt_keywords t)) DECISION_TEMPLATES)"
    unfolding matched_def by (simp only: decision_catalog_order h)
  show "map q_id (filter (\<lambda>q. q_type q = ambiguity) matched) =
       map at_id (filter (\<lambda>t. 0 < hits (at_keywords t)) AMBIGUITY_TEMPLATES)"
    unfolding matched_def by (simp only: ambiguity_catalog_order h)
next
  show "\<forall>t \<in> set DECISION_TEMPLATES. getKeywordCount (dt_id t) request = int (hits (dt_keywords t))"
    unfolding hits_def using keyword_count_decision by blast
  show "\<forall>t \<in> set AMBIGUITY_TEMPLATES. getKeywordCount (at_id t) request = int (hits (at_keywords t))"
    unfolding hits_def using keyword_count_ambiguity by blast
next
  show "maxQuestions DEFAULT_QUESTION_CONFIG = 10"
    by (simp add: DEFAULT_QUESTION_CONFIG_def)
next
  show "2 \<le> maxQuestions (qm_config m) \<longrightarrow>
        map q_id (questionQueue (qm_state
          (generateQuestions rt m ''optimize performance of the database layer'' files))) =
          [''database-choice'', ''performance-requirements''] \<and>
        map q_type (questionQueue (qm_state
          (generateQuestions rt m ''optimize performance of the database layer'' files))) =
          [decision, ambiguity]"
  proof
    assume big: "2 \<le> maxQuestions (qm_config m)"
    have "length (map q_id (prioritizeQuestions
                    (findMatchingQuestions rt ''optimize performance of the database layer'')
                    ''optimize performance of the database layer'')) = 2"
      by (simp only: example_queue) simp
    then have "length (prioritizeQuestions
                    (findMatchingQuestions rt ''optimize performance of the database layer'')
                    ''optimize performance of the database layer'') \<le> maxQuestions (qm_config m)"
      using big by simp
    then have "take (maxQuestions (qm_config m))
                 (prioritizeQuestions
                    (findMatchingQuestions rt ''optimize performance of the database layer'')
                    ''optimize performance of the database layer'') =
               prioritizeQuestions
                    (findMatchingQuestions rt ''optimize performance of the database layer'')
                    ''optimize performance of the database layer''"
      by (rule take_all)
    then show "map q_id (questionQueue (qm_state
          (generateQuestions rt m ''optimize performance of the database layer'' files))) =
          [''database-choice'', ''performance-requirements''] \<and>
        map q_type (questionQueue (qm_state
          (generateQuestions rt m ''optimize performance of the database layer'' files))) =
          [decision, ambiguity]"
      by (simp only: queue_generateQuestions example_queue)
  qed
qed


theorem generateQuestions_priority_witness:
  "2 \<le> maxQuestions (qm_config (new_QuestionManager None
          \<lparr>pc_maxQuestions = None, pc_allowSkip = None, pc_confidenceThreshold = None\<rparr>)) \<and>
   map q_id (questionQueue (qm_state (generateQuestions sample_runtime
      (new_QuestionManager None
         \<lparr>pc_maxQuestions = None, pc_allowSkip = None, pc_confidenceThreshold = None\<rparr>)
      ''optimize performance of the database layer'' []))) =
     [''database-choice'', ''performance-requirements''] \<and>
   map q_type (questionQueue (qm_state (generateQuestions sample_runtime
      (new_QuestionManager None
         \<lparr>pc_maxQuestions = None, pc_allowSkip = None, pc_confidenceThreshold = None\<rparr>)
      ''optimize performance of the database layer'' []))) =
     [decision, ambiguity] \<and>
   map q_id (questionQueue (qm_state (generateQuestions sample_runtime
      (new_QuestionManager None
         \<lparr>pc_maxQuestions = None, pc_allowSkip = None, pc_confidenceThreshold = None\<rparr>)
      ''Build user authentication with a database'' []))) =
     [''assumptions-confirmation'', ''authentication-method'', ''database-choice'',
      ''architecture-pattern'']"
proof -
  have big: "2 \<le> maxQuestions (qm_config (new_QuestionManager None
          \<lparr>pc_maxQuestions = None, pc_allowSkip = None, pc_confidenceThreshold = None\<rparr>))"
    by (simp add: new_QuestionManager_def DEFAULT_QUESTION_CONFIG_def)
  have second: "map q_id (questionQueue (qm_state (generateQuestions sample_runtime
      (new_QuestionManager None
         \<lparr>pc_maxQuestions = None, pc_allowSkip = None, pc_confidenceThreshold = None\<rparr>)
      ''Build user authentication with a database'' []))) =
     [''assumptions-confirmation'', ''authentication-method'', ''database-choice'',
      ''architecture-pattern'']"
    by code_simp
  from generateQuestions_priority
         [where rt = sample_runtime and files = "[]" and m = "new_QuestionManager None
          \<lparr>pc_maxQuestions = None, pc_allowSkip = None, pc_confidenceThreshold = None\<rparr>"]
       big second
  show ?thesis by blast
qed

section \<open>Updating the plan\<close>

text \<open>
  C9. With an active plan, \<open>updatePlanFile\<close> replaces it by a plan with the same \<open>id\<close>,
  \<open>slug\<close> and \<open>createdAt\<close>, with \<open>updatedAt\<close> set to the current time (also when the
  updates carry an \<open>updatedAt\<close> of their own), and with every other field taken from the
  updates when it is present there and left as it was when it is not; nothing else of
  the planning state changes. With no active plan the call changes nothing and emits
  nothing.
\<close>

theorem updatePlanFile_frame:
  "(planFile s = None \<longrightarrow> updatePlanFile now s updates = (s, [])) \<and>
   (\<forall>pf. planFile s = Some pf \<longrightarrow>
      (\<exists>pf'. updatePlanFile now s updates = (s\<lparr>planFile := Some pf'\<rparr>, [planUpdated pf']) \<and>
         pf_id pf' = pf_id pf \<and>
         pf_slug pf' = pf_slug pf \<and>
         pf_createdAt pf' = pf_createdAt pf \<and>
         pf_updatedAt pf' = Date now \<and>
         pf_phase pf' = (case u_phase updates of None \<Rightarrow> pf_phase pf | Some v \<Rightarrow> v) \<and>
         pf_userRequest pf' =
           (case u_userRequest updates of None \<Rightarrow> pf_userRequest pf | Some v \<Rightarrow> v) \<and>
         pf_clarifications pf' =
           (case u_clarifications updates of None \<Rightarrow> pf_clarifications pf | Some v \<Rightarrow> v) \<and>
         pf_implementationPlan pf' =
           (case u_implementationPlan updates of
              None \<Rightarrow> pf_implementationPlan pf
            | Some v \<Rightarrow> v) \<and>
         pf_filesToModify pf' =
           (case u_filesToModify updates of None \<Rightarrow> pf_filesToModify pf | Some v \<Rightarrow> v) \<and>
         pf_verificationSteps pf' =
           (case u_verificationSteps updates of
              None \<Rightarrow> pf_verificationSteps pf
            | Some v \<Rightarrow> v)))"
  by (auto simp add: updatePlanFile_def spread_updates_def Let_def split: option.splits)

theorem updatePlanFile_frame_witness:
  "updatePlanFile 1793622900000 createInitialPlanningState
     \<lparr>u_updatedAt = None, u_phase = None, u_userRequest = None, u_clarifications = None,
      u_implementationPlan = Some ''1. Add the form'', u_filesToModify = None,
      u_verificationSteps = None\<rparr> = (createInitialPlanningState, []) \<and>
   (\<exists>pf'. fst (updatePlanFile 1793622900000
               (fst (snd (createPlanFile ''123e4567-e89b-42d3-a456-426614174000''
                            [0x1a, 0x2b, 0x3c, 0x4d, 0x5e, 0x6f] 1793622896789
                            createInitialPlanningState ''add a login page'')))
               \<lparr>u_updatedAt = Some (Date 5), u_phase = None, u_userRequest = None,
                u_clarifications = None, u_implementationPlan = Some ''1. Add the form'',
                u_filesToModify = Some [''src/login.tsx''], u_verificationSteps = None\<rparr>)
          = createInitialPlanningState\<lparr>planFile := Some pf'\<rparr> \<and>
      pf_id pf' = ''123e4567-e89b-42d3-a456-426614174000'' \<and>
      pf_slug pf' = ''1a2b3c4d5e6f'' \<and>
      pf_createdAt pf' = Date 1793622896789 \<and>
      pf_updatedAt pf' = Date 1793622900000 \<and>
      pf_userRequest pf' = ''add a login page'' \<and>
      pf_implementationPlan pf' = ''1. Add the form'' \<and>
      pf_filesToModify pf' = [''src/login.tsx''])"
  using updatePlanFile_frame [of createInitialPlanningState 1793622900000
      "\<lparr>u_updatedAt = None, u_phase = None, u_userRequest = None, u_clarifications = None,
      u_implementationPlan = Some ''1. Add the form'', u_filesToModify = None,
      u_verificationSteps = None\<rparr>"]
    updatePlanFile_frame [of "fst (snd (createPlanFile ''123e4567-e89b-42d3-a456-426614174000''
                            [0x1a, 0x2b, 0x3c, 0x4d, 0x5e, 0x6f] 1793622896789
                            createInitialPlanningState ''add a login page''))" 1793622900000
      "\<lparr>u_updatedAt = Some (Date 5), u_phase = None, u_userRequest = None,
                u_clarifications = None, u_implementationPlan = Some ''1. Add the form'',
                u_filesToModify = Some [''src/login.tsx''], u_verificationSteps = None\<rparr>"]
  by (auto simp add: createInitialPlanningState_def createPlanFile_def generateSlug_def
        hex_example Let_def)

section \<open>Submitting an answer\<close>

text \<open>
  C8. \<open>submitAnswer\<close> fails with a validation error when there is no current question,
  and when the answer's \<open>questionId\<close> is not the current question's \<open>id\<close>; in both
  cases the manager is left exactly as it was (state, context and configuration), so
  \<open>answeredQuestions\<close>, \<open>currentQuestion\<close> and the queue are untouched. In the one
  remaining case, a current question with the answer's \<open>questionId\<close>, it succeeds and
  records the answer.
\<close>

theorem submitAnswer_rejects:
  "(currentQuestion (qm_state m) = None \<longrightarrow>
      submitAnswer m a = (Inl NoCurrentQuestionToAnswer, m)) \<and>
   (\<forall>q. currentQuestion (qm_state m) = Some q \<and> questionId a \<noteq> q_id q \<longrightarrow>
      submitAnswer m a = (Inl (AnswerIdMismatch (questionId a) (q_id q)), m)) \<and>
   (\<forall>q. currentQuestion (qm_state m) = Some q \<and> questionId a = q_id q \<longrightarrow>
      fst (submitAnswer m a) = Inr () \<and>
      map_of (answeredQuestions (qm_state (snd (submitAnswer m a)))) (q_id q) = Some a)"
  by (auto simp add: submitAnswer_def moveToNextQuestion_def Let_def update_conv')

lemma example_current:
  "map_option q_id (currentQuestion (qm_state (generateQuestions sample_runtime
      (new_QuestionManager None
         \<lparr>pc_maxQuestions = None, pc_allowSkip = None, pc_confidenceThreshold = None\<rparr>)
      ''optimize performance of the database layer'' []))) = Some ''database-choice''"
  by code_simp

theorem submitAnswer_rejects_witness:
  "submitAnswer
     (new_QuestionManager None
        \<lparr>pc_maxQuestions = None, pc_allowSkip = None, pc_confidenceThreshold = None\<rparr>)
     \<lparr>questionId = ''performance-requirements'', selectedOptionIds = [''memory''],
      customText = None, timestamp = Date 1793622896789\<rparr> =
     (Inl NoCurrentQuestionToAnswer,
      new_QuestionManager None
        \<lparr>pc_maxQuestions = None, pc_allowSkip = None, pc_confidenceThreshold = None\<rparr>) \<and>
   submitAnswer
     (generateQuestions sample_runtime
        (new_QuestionManager None
           \<lparr>pc_maxQuestions = None, pc_allowSkip = None, pc_confidenceThreshold = None\<rparr>)
        ''optimize performance of the database layer'' [])
     \<lparr>questionId = ''performance-requirements'', selectedOptionIds = [''memory''],
      customText = None, timestamp = Date 1793622896789\<rparr> =
     (Inl (AnswerIdMismatch ''performance-requirements'' ''database-choice''),
      generateQuestions sample_runtime
        (new_QuestionManager None
           \<lparr>pc_maxQuestions = None, pc_allowSkip = None, pc_confidenceThreshold = None\<rparr>)
        ''optimize performance of the database layer'' [])"
proof -
  let ?m0 = "new_QuestionManager None
        \<lparr>pc_maxQuestions = None, pc_allowSkip = None, pc_confidenceThreshold = None\<rparr>"
  let ?m1 = "generateQuestions sample_runtime ?m0 ''optimize performance of the database layer'' []"
  let ?a = "\<lparr>questionId = ''performance-requirements'', selectedOptionIds = [''memory''],
      customText = None, timestamp = Date 1793622896789\<rparr>"
  have none: "currentQuestion (qm_state ?m0) = None"
    by (simp add: new_QuestionManager_def emptyQuestionState_def)
  obtain q where q: "currentQuestion (qm_state ?m1) = Some q" and "q_id q = ''database-choice''"
    using example_current by (auto simp add: map_option_case split: option.splits)
  then have differs: "questionId ?a \<noteq> q_id q"
    by simp
  from submitAnswer_rejects [of ?m0 ?a] none
  have first: "submitAnswer ?m0 ?a = (Inl NoCurrentQuestionToAnswer, ?m0)"
    by blast
  from submitAnswer_rejects [of ?m1 ?a] q differs
  have "submitAnswer ?m1 ?a = (Inl (AnswerIdMismatch (questionId ?a) (q_id q)), ?m1)"
    by blast
  with \<open>q_id q = ''database-choice''\<close>
  have second: "submitAnswer ?m1 ?a =
      (Inl (AnswerIdMismatch ''performance-requirements'' ''database-choice''), ?m1)"
    by simp
  from first second show ?thesis by (rule conjI)
qed

section \<open>Skipping a question\<close>

lemma generated_skip_rule:
  assumes "q \<in> set (findMatchingQuestions rt r)"
  shows "(q_type q = ambiguity \<or> q_type q = decision \<longrightarrow> q_allowSkip q = Some True) \<and>
         (q_type q = confirmation \<longrightarrow> q_allowSkip q = Some False) \<and>
         (q_id q = ''assumptions-confirmation'' \<longrightarrow> q_type q = confirmation)"
proof -
  have amb: "\<And>t. t \<in> set AMBIGUITY_TEMPLATES \<Longrightarrow> at_id t \<noteq> ''assumptions-confirmation''"
  proof -
    fix t assume "t \<in> set AMBIGUITY_TEMPLATES"
    then have "at_id t \<in> set (map at_id AMBIGUITY_TEMPLATES)" by simp
    then show "at_id t \<noteq> ''assumptions-confirmation''"
      unfolding ambiguity_ids by auto
  qed
  have dec: "\<And>t. t \<in> set DECISION_TEMPLATES \<Longrightarrow> dt_id t \<noteq> ''assumptions-confirmation''"
  proof -
    fix t assume "t \<in> set DECISION_TEMPLATES"
    then have "dt_id t \<in> set (map dt_id DECISION_TEMPLATES)" by simp
    then show "dt_id t \<noteq> ''assumptions-confirmation''"
      unfolding decision_ids by auto
  qed
  from assms show ?thesis
    unfolding findMatchingQuestions_parts
    by (auto simp del: some.simps dest: amb dec split: if_splits)
qed

lemma queue_subset:
  "set (questionQueue (qm_state (generateQuestions rt m r f))) \<subseteq> set (findMatchingQuestions rt r)"
proof -
  have "set (prioritizeQuestions (findMatchingQuestions rt r) r) \<subseteq> set (findMatchingQuestions rt r)"
    unfolding prioritize_sorted by auto
  then show ?thesis
    unfolding queue_generateQuestions using set_take_subset by fastforce
qed

lemma current_generateQuestions:
  "currentQuestion (qm_state (generateQuestions rt m r f)) =
     (case questionQueue (qm_state (generateQuestions rt m r f)) of
        [] \<Rightarrow> currentQuestion (qm_state m)
      | q # _ \<Rightarrow> Some q)"
  by (simp add: generateQuestions_def Let_def split: list.splits)

lemma moveToNextQuestion_queue: "questionQueue (moveToNextQuestion st) = questionQueue st"
  by (simp add: moveToNextQuestion_def Let_def)

lemma moveToNextQuestion_current:
  "currentQuestion (moveToNextQuestion st) = Some q \<Longrightarrow> q \<in> set (questionQueue st)"
  by (auto simp add: moveToNextQuestion_def Let_def split: if_splits)

lemma reachable_generated:
  assumes "reachable rt m"
  shows "(\<forall>q \<in> set (questionQueue (qm_state m)). \<exists>r. q \<in> set (findMatchingQuestions rt r)) \<and>
         (\<forall>q. currentQuestion (qm_state m) = Some q \<longrightarrow> (\<exists>r. q \<in> set (findMatchingQuestions rt r)))"
  using assms
proof (induction rule: reachable.induct)
  case (reachable_new ctx cfg)
  show ?case by (simp add: new_QuestionManager_def emptyQuestionState_def)
next
  case (reachable_setContext m ctx)
  then show ?case by (simp add: setContext_def)
next
  case (reachable_generate m request fs)
  have sub: "set (questionQueue (qm_state (generateQuestions rt m request fs)))
               \<subseteq> set (findMatchingQuestions rt request)"
    by (rule queue_subset)
  show ?case
  proof (intro conjI ballI allI impI)
    fix q assume "q \<in> set (questionQueue (qm_state (generateQuestions rt m request fs)))"
    with sub show "\<exists>r. q \<in> set (findMatchingQuestions rt r)" by blast
  next
    fix q assume c: "currentQuestion (qm_state (generateQuestions rt m request fs)) = Some q"
    show "\<exists>r. q \<in> set (findMatchingQuestions rt r)"
    proof (cases "questionQueue (qm_state (generateQuestions rt m request fs))")
      case Nil
      with c have "currentQuestion (qm_state m) = Some q"
        by (simp add: current_generateQuestions)
      with reachable_generate.IH show ?thesis by blast
    next
      case (Cons x xs)
      with c have "q = x" by (simp add: current_generateQuestions)
      with Cons sub show ?thesis by auto
    qed
  qed
next
  case (reachable_submit m answer)
  then show ?case
    by (auto simp add: submitAnswer_def Let_def moveToNextQuestion_queue
          dest!: moveToNextQuestion_current split: option.splits if_splits)
next
  case (reachable_skip m now)
  then show ?case
    by (auto simp add: skipCurrentQuestion_def Let_def moveToNextQuestion_queue
          dest!: moveToNextQuestion_current split: option.splits if_splits)
next
  case (reachable_reset m)
  show ?case by (simp add: reset_def emptyQuestionState_def)
qed

text \<open>
  C10. Every question in the queue \<open>generateQuestions\<close> produces has \<open>allowSkip = true\<close>
  when its type is ambiguity or decision and \<open>allowSkip = false\<close> when its type is
  confirmation. Hence in every state the manager can reach through its operations, when
  the current question is the assumptions-confirmation question (or any question of
  type confirmation), \<open>skipCurrentQuestion\<close> fails and leaves the manager as it was: no
  answer is recorded.
\<close>

theorem confirmation_cannot_be_skipped:
  "(\<forall>q \<in> set (questionQueue (qm_state (generateQuestions rt m request fls))).
      (q_type q = ambiguity \<or> q_type q = decision \<longrightarrow> q_allowSkip q = Some True) \<and>
      (q_type q = confirmation \<longrightarrow> q_allowSkip q = Some False)) \<and>
   (\<forall>m' q. reachable rt m' \<and> currentQuestion (qm_state m') = Some q \<and>
        (q_id q = ''assumptions-confirmation'' \<or> q_type q = confirmation) \<longrightarrow>
      skipCurrentQuestion now m' = (Inl CannotBeSkipped, m'))"
proof (rule conjI)
  show "\<forall>q \<in> set (questionQueue (qm_state (generateQuestions rt m request fls))).
      (q_type q = ambiguity \<or> q_type q = decision \<longrightarrow> q_allowSkip q = Some True) \<and>
      (q_type q = confirmation \<longrightarrow> q_allowSkip q = Some False)"
  proof (rule ballI)
    fix q assume "q \<in> set (questionQueue (qm_state (generateQuestions rt m request fls)))"
    then have "q \<in> set (findMatchingQuestions rt request)"
      using queue_subset by blast
    then show "(q_type q = ambiguity \<or> q_type q = decision \<longrightarrow> q_allowSkip q = Some True) \<and>
        (q_type q = confirmation \<longrightarrow> q_allowSkip q = Some False)"
      using generated_skip_rule by blast
  qed
next
  show "\<forall>m' q. reachable rt m' \<and> currentQuestion (qm_state m') = Some q \<and>
        (q_id q = ''assumptions-confirmation'' \<or> q_type q = confirmation) \<longrightarrow>
      skipCurrentQuestion now m' = (Inl CannotBeSkipped, m')"
  proof (intro allI impI)
    fix m' q
    assume a: "reachable rt m' \<and> currentQuestion (qm_state m') = Some q \<and>
          (q_id q = ''assumptions-confirmation'' \<or> q_type q = confirmation)"
    then obtain r where "q \<in> set (findMatchingQuestions rt r)"
      using reachable_generated by blast
    with a have "q_allowSkip q = Some False"
      using generated_skip_rule by blast
    with a show "skipCurrentQuestion now m' = (Inl CannotBeSkipped, m')"
      by (simp add: skipCurrentQuestion_def)
  qed
qed


lemma example_confirmation_current:
  "map_option q_id (currentQuestion (qm_state (generateQuestions sample_runtime
      (new_QuestionManager None
         \<lparr>pc_maxQuestions = None, pc_allowSkip = None, pc_confidenceThreshold = None\<rparr>)
      ''Build user authentication with a database'' []))) = Some ''assumptions-confirmation''"
  by code_simp

theorem confirmation_cannot_be_skipped_witness:
  "map_option q_id (currentQuestion (qm_state (generateQuestions sample_runtime
      (new_QuestionManager None
         \<lparr>pc_maxQuestions = None, pc_allowSkip = None, pc_confidenceThreshold = None\<rparr>)
      ''Build user authentication with a database'' []))) = Some ''assumptions-confirmation'' \<and>
   skipCurrentQuestion 1793622896789
     (generateQuestions sample_runtime
        (new_QuestionManager None
           \<lparr>pc_maxQuestions = None, pc_allowSkip = None, pc_confidenceThreshold = None\<rparr>)
        ''Build user authentication with a database'' []) =
     (Inl CannotBeSkipped,
      generateQuestions sample_runtime
        (new_QuestionManager None
           \<lparr>pc_maxQuestions = None, pc_allowSkip = None, pc_confidenceThreshold = None\<rparr>)
        ''Build user authentication with a database'' [])"
proof -
  let ?m0 = "new_QuestionManager None
         \<lparr>pc_maxQuestions = None, pc_allowSkip = None, pc_confidenceThreshold = None\<rparr>"
  let ?m1 = "generateQuestions sample_runtime ?m0 ''Build user authentication with a database'' []"
  have r: "reachable sample_runtime ?m1"
    by (intro reachable_generate reachable_new)
  obtain q where q: "currentQuestion (qm_state ?m1) = Some q"
    and i: "q_id q = ''assumptions-confirmation''"
    using example_confirmation_current by (auto simp add: map_option_case split: option.splits)
  from confirmation_cannot_be_skipped [of sample_runtime ?m0 "[]" "[]" 1793622896789] r q i
  have "skipCurrentQuestion 1793622896789 ?m1 = (Inl CannotBeSkipped, ?m1)"
    by blast
  with example_confirmation_current show ?thesis by (rule conjI)
qed

section \<open>Saving under the home directory\<close>

lemma startsWith_append: "startsWith (p @ rest) p"
  by (induction p) simp_all

lemma home_not_valid:
  assumes "cwd = home \<or> (\<exists>rest. cwd = home @ ''/'' @ rest) \<or>
           (\<exists>rest. cwd = home @ [CHR 0x5C] @ rest)"
  shows "\<not> isValidProjectDirectory home cwd"
proof -
  from assms consider "cwd = home" | rest where "cwd = home @ ''/'' @ rest"
    | rest where "cwd = home @ [CHR 0x5C] @ rest"
    by blast
  then show ?thesis
  proof cases
    case 1
    then show ?thesis by (simp add: isValidProjectDirectory_def)
  next
    case 2
    then have "replace_backslashes cwd =
                 (replace_backslashes home @ ''/'') @ replace_backslashes rest"
      by (simp add: replace_backslashes_def)
    then have "startsWith (replace_backslashes cwd) (replace_backslashes home @ ''/'')"
      by (simp only: startsWith_append)
    then show ?thesis by (simp add: isValidProjectDirectory_def Let_def)
  next
    case 3
    then have "replace_backslashes cwd =
                 (replace_backslashes home @ ''/'') @ replace_backslashes rest"
      by (simp add: replace_backslashes_def)
    then have "startsWith (replace_backslashes cwd) (replace_backslashes home @ ''/'')"
      by (simp only: startsWith_append)
    then show ?thesis by (simp add: isValidProjectDirectory_def Let_def)
  qed
qed

text \<open>
  What the check does catch: a working directory whose string is the home string, or
  the home string followed by a slash or a backslash and more. There every save is
  refused and the file system is left as it was.
\<close>

lemma save_refused_on_home_prefix:
  assumes "cwd = home \<or> (\<exists>rest. cwd = home @ ''/'' @ rest) \<or>
           (\<exists>rest. cwd = home @ [CHR 0x5C] @ rest)"
  shows "ensurePlanDirectory home fs cwd = (Inl NotProjectDirectory, fs) \<and>
         savePlanFile rt home fs cwd pf md = (Inl NotProjectDirectory, fs) \<and>
         createPlan rt home fs cwd randomBytes6 now request = (Inl NotProjectDirectory, fs)"
  using home_not_valid [OF assms]
  by (simp add: savePlanFile_def ensurePlanDirectory_def createPlan_def)

text \<open>
  C6 (the code falls short of it). \<open>isValidProjectDirectory\<close> is documented as refusing
  the home directory and its subdirectories, and compares the two path strings after
  turning backslashes into slashes, nothing more. When \<open>os.homedir()\<close> is
  \<open>/home/alice/\<close> (\<open>HOME\<close> set with a trailing slash), the working directories
  \<open>/home/alice\<close> and \<open>/home/alice/proj\<close> pass the check, and \<open>savePlanFile\<close> in
  \<open>/home/alice/proj\<close> succeeds and writes the JSON sidecar below the home directory.
  The same happens for the home directory \<open>/\<close> and the working directory \<open>/app\<close>.
\<close>

theorem save_below_home_accepted:
  "isValidProjectDirectory ''/home/alice/'' ''/home/alice'' \<and>
   isValidProjectDirectory ''/home/alice/'' ''/home/alice/proj'' \<and>
   fst (savePlanFile sample_runtime ''/home/alice/'' empty_filesystem ''/home/alice/proj''
          sample_plan None) = Inr () \<and>
   files (snd (savePlanFile sample_runtime ''/home/alice/'' empty_filesystem
                 ''/home/alice/proj'' sample_plan None))
     (getPlanJsonPath ''/home/alice/proj'' ''1a2b3c4d5e6f'') =
     Some (JSON_stringify_pretty sample_runtime (PlanFile_toJSON sample_runtime sample_plan)) \<and>
   isValidProjectDirectory ''/'' ''/app'' \<and>
   fst (savePlanFile sample_runtime ''/'' empty_filesystem ''/app'' sample_plan None) = Inr ()"
proof -
  have v1: "isValidProjectDirectory ''/home/alice/'' ''/home/alice''"
    and v2: "isValidProjectDirectory ''/home/alice/'' ''/home/alice/proj''"
    and v3: "isValidProjectDirectory ''/'' ''/app''"
    by (simp_all add: isValidProjectDirectory_def replace_backslashes_def)
  have slug: "pf_slug sample_plan = ''1a2b3c4d5e6f''"
    and dates: "pf_createdAt sample_plan = Date 1793622896789"
      "pf_updatedAt sample_plan = Date 1793622900000"
    by (simp_all add: sample_plan_def)
  have free: "\<And>x. x \<notin> denied empty_filesystem"
    by (simp add: empty_filesystem_def)
  have noslash: "CHR ''/'' \<notin> set (pf_slug sample_plan)"
    by (simp add: slug)
  obtain fs1 where s1: "savePlanFile sample_runtime ''/home/alice/'' empty_filesystem
      ''/home/alice/proj'' sample_plan None = (Inr (), fs1)"
    using savePlanFile_succeeds [OF v2 free free free noslash dates] by blast
  obtain fs2 where s2: "savePlanFile sample_runtime ''/'' empty_filesystem ''/app''
      sample_plan None = (Inr (), fs2)"
    using savePlanFile_succeeds [OF v3 free free free noslash dates] by blast
  from savePlanFile_result(1) [OF s1]
  have "files fs1 (getPlanJsonPath ''/home/alice/proj'' ''1a2b3c4d5e6f'') =
          Some (JSON_stringify_pretty sample_runtime (PlanFile_toJSON sample_runtime sample_plan))"
    by (simp add: slug)
  with v1 v2 v3 s1 s2 show ?thesis by simp
qed

section \<open>Loading a plan\<close>

text \<open>
  C3 (as amended). \<open>loadPlanFile\<close> returns \<open>null\<close> for a slug whose JSON sidecar exists
  (and can be read) but does not parse, exactly as it does for a slug whose sidecar is
  absent: its \<open>catch\<close> covers the read and the parse alike, and it has no error outcome.
\<close>

theorem load_unparseable_is_null:
  "(files fs (getPlanJsonPath cwd slug) = Some content \<and>
    getPlanJsonPath cwd slug \<notin> denied fs \<and>
    JSON_parse rt content = None \<longrightarrow> loadPlanFile rt fs cwd slug = None) \<and>
   (files fs (getPlanJsonPath cwd slug) = None \<longrightarrow> loadPlanFile rt fs cwd slug = None)"
  by (simp add: loadPlanFile_def readFile_def Let_def)

lemma corrupt_sidecar_written:
  "files (snd (writeFile (snd (mkdir_recursive empty_filesystem
                                 (getPlanDirectory ''/srv/project'')))
                 (getPlanJsonPath ''/srv/project'' ''1a2b3c4d5e6f'') ''{ slug: 1a2b3c4d5e6f''))
     (getPlanJsonPath ''/srv/project'' ''1a2b3c4d5e6f'') = Some ''{ slug: 1a2b3c4d5e6f''"
  "getPlanJsonPath ''/srv/project'' ''1a2b3c4d5e6f'' \<notin>
     denied (snd (writeFile (snd (mkdir_recursive empty_filesystem
                                    (getPlanDirectory ''/srv/project'')))
                    (getPlanJsonPath ''/srv/project'' ''1a2b3c4d5e6f'')
                    ''{ slug: 1a2b3c4d5e6f''))"
proof -
  have "CHR ''/'' \<notin> set ''1a2b3c4d5e6f''"
    by simp
  then have d: "dirname (getPlanJsonPath ''/srv/project'' ''1a2b3c4d5e6f'') =
                  getPlanDirectory ''/srv/project''"
    by (rule dirname_plan_paths)
  show "files (snd (writeFile (snd (mkdir_recursive empty_filesystem
                                 (getPlanDirectory ''/srv/project'')))
                 (getPlanJsonPath ''/srv/project'' ''1a2b3c4d5e6f'') ''{ slug: 1a2b3c4d5e6f''))
     (getPlanJsonPath ''/srv/project'' ''1a2b3c4d5e6f'') = Some ''{ slug: 1a2b3c4d5e6f''"
    by (simp add: writeFile_def mkdir_recursive_def empty_filesystem_def d)
  show "getPlanJsonPath ''/srv/project'' ''1a2b3c4d5e6f'' \<notin>
     denied (snd (writeFile (snd (mkdir_recursive empty_filesystem
                                    (getPlanDirectory ''/srv/project'')))
                    (getPlanJsonPath ''/srv/project'' ''1a2b3c4d5e6f'')
                    ''{ slug: 1a2b3c4d5e6f''))"
    by (simp add: writeFile_def mkdir_recursive_def empty_filesystem_def d)
qed

lemma corrupt_sidecar_unparseable: "JSON_parse sample_runtime ''{ slug: 1a2b3c4d5e6f'' = None"
  by code_simp

text \<open>
  C3 as stated fails: with the plan directory made and the sidecar of slug
  \<open>1a2b3c4d5e6f\<close> holding text that is not JSON, the file exists, the parse fails, and
  the load returns \<open>null\<close>.
\<close>

theorem load_unparseable_example:
  "files (snd (writeFile (snd (mkdir_recursive empty_filesystem
                                 (getPlanDirectory ''/srv/project'')))
                 (getPlanJsonPath ''/srv/project'' ''1a2b3c4d5e6f'') ''{ slug: 1a2b3c4d5e6f''))
     (getPlanJsonPath ''/srv/project'' ''1a2b3c4d5e6f'') = Some ''{ slug: 1a2b3c4d5e6f'' \<and>
   JSON_parse sample_runtime ''{ slug: 1a2b3c4d5e6f'' = None \<and>
   loadPlanFile sample_runtime
     (snd (writeFile (snd (mkdir_recursive empty_filesystem
                             (getPlanDirectory ''/srv/project'')))
             (getPlanJsonPath ''/srv/project'' ''1a2b3c4d5e6f'') ''{ slug: 1a2b3c4d5e6f''))
     ''/srv/project'' ''1a2b3c4d5e6f'' = None"
  using corrupt_sidecar_written corrupt_sidecar_unparseable
  by (simp add: loadPlanFile_def readFile_def Let_def)

theorem load_unparseable_is_null_witness:
  "loadPlanFile sample_runtime
     (snd (writeFile (snd (mkdir_recursive empty_filesystem
                             (getPlanDirectory ''/srv/project'')))
             (getPlanJsonPath ''/srv/project'' ''1a2b3c4d5e6f'') ''{ slug: 1a2b3c4d5e6f''))
     ''/srv/project'' ''1a2b3c4d5e6f'' = None \<and>
   loadPlanFile sample_runtime empty_filesystem ''/srv/project'' ''1a2b3c4d5e6f'' = None"
proof -
  let ?path = "getPlanJsonPath ''/srv/project'' ''1a2b3c4d5e6f''"
  let ?fs = "snd (writeFile (snd (mkdir_recursive empty_filesystem
                                    (getPlanDirectory ''/srv/project'')))
                    ?path ''{ slug: 1a2b3c4d5e6f'')"
  have e: "files empty_filesystem ?path = None"
    by (simp add: empty_filesystem_def)
  from load_unparseable_is_null [of ?fs "''/srv/project''" "''1a2b3c4d5e6f''"
         "''{ slug: 1a2b3c4d5e6f''" sample_runtime]
       corrupt_sidecar_written corrupt_sidecar_unparseable
  have one: "loadPlanFile sample_runtime ?fs ''/srv/project'' ''1a2b3c4d5e6f'' = None"
    by blast
  from load_unparseable_is_null [of empty_filesystem "''/srv/project''" "''1a2b3c4d5e6f''"
         "''{ slug: 1a2b3c4d5e6f''" sample_runtime] e
  have two: "loadPlanFile sample_runtime empty_filesystem ''/srv/project'' ''1a2b3c4d5e6f'' = None"
    by blast
  from one two show ?thesis by (rule conjI)
qed

section \<open>Saving and loading a plan\<close>

lemma loaded_object:
  assumes "pf_createdAt p = Date c" and "pf_updatedAt p = Date u"
    and "new_Date rt (Some (JStr (toISOString rt c))) = Date c"
    and "new_Date rt (Some (JStr (toISOString rt u))) = Date u"
    and same: "map_of kvs = map_of (PlanFile_properties rt p)"
  shows "deep_equal
           (AList.update ''updatedAt''
              (DV (new_Date rt (get_property (JObj kvs) ''updatedAt'')))
              (AList.update ''createdAt''
                 (DV (new_Date rt (get_property (JObj kvs) ''createdAt'')))
                 (object_spread (JObj kvs))))
           (PlanFile_object p)"
proof -
  have spread: "map_of (object_spread (JObj kvs)) =
                  map_option JV \<circ> map_of (PlanFile_properties rt p)"
    by (simp add: object_spread_def map_of_map same)
  have get: "get_property (JObj kvs) k = map_of (PlanFile_properties rt p) k" for k
    by (simp add: get_property_def same)
  show ?thesis
    using assms(1-4)
    by (simp add: deep_equal_def update_conv' spread get PlanFile_properties_def
          PlanFile_object_def date_toJSON_def fun_eq_iff)
qed

text \<open>
  C7. Take a plan record whose dates are valid and whose JSON form survives the
  runtime's \<open>JSON.stringify\<close> and \<open>JSON.parse\<close> (the parse gives an object with the
  same properties, in whatever order) and whose two ISO date strings the \<open>Date\<close>
  constructor reads back. Then whenever \<open>savePlanFile\<close> succeeds, the plan directory
  exists afterwards and \<open>loadPlanFile\<close> of the record's slug returns an object deep-equal
  to the record, \<open>createdAt\<close> and \<open>updatedAt\<close> being \<open>Date\<close> values again (\<open>updatedAt\<close>
  does not advance). And \<open>savePlanFile\<close> does succeed in a valid project directory,
  whether or not the plan directory exists beforehand, when the slug is a file name
  (no slash) and the operating system refuses none of the three paths.
\<close>

theorem save_load_roundtrip:
  assumes created: "pf_createdAt p = Date c"
    and updated: "pf_updatedAt p = Date u"
    and representable:
      "\<exists>kvs. JSON_parse rt (JSON_stringify_pretty rt (PlanFile_toJSON rt p)) = Some (JObj kvs) \<and>
             map_of kvs = map_of (PlanFile_properties rt p)"
    and revive_created: "new_Date rt (Some (JStr (toISOString rt c))) = Date c"
    and revive_updated: "new_Date rt (Some (JStr (toISOString rt u))) = Date u"
  shows "(\<forall>fs'. savePlanFile rt home fs cwd p md = (Inr (), fs') \<longrightarrow>
            getPlanDirectory cwd \<in> dirs fs' \<and>
            (\<exists>loaded. loadPlanFile rt fs' cwd (pf_slug p) = Some loaded \<and>
               deep_equal loaded (PlanFile_object p))) \<and>
         (isValidProjectDirectory home cwd \<and>
          getPlanDirectory cwd \<notin> denied fs \<and>
          getPlanMdPath cwd (pf_slug p) \<notin> denied fs \<and>
          getPlanJsonPath cwd (pf_slug p) \<notin> denied fs \<and>
          CHR ''/'' \<notin> set (pf_slug p) \<longrightarrow>
            (\<exists>fs'. savePlanFile rt home fs cwd p md = (Inr (), fs')))"
proof (rule conjI)
  obtain kvs where parsed:
      "JSON_parse rt (JSON_stringify_pretty rt (PlanFile_toJSON rt p)) = Some (JObj kvs)"
    and same: "map_of kvs = map_of (PlanFile_properties rt p)"
    using representable by blast
  show "\<forall>fs'. savePlanFile rt home fs cwd p md = (Inr (), fs') \<longrightarrow>
            getPlanDirectory cwd \<in> dirs fs' \<and>
            (\<exists>loaded. loadPlanFile rt fs' cwd (pf_slug p) = Some loaded \<and>
               deep_equal loaded (PlanFile_object p))"
  proof (intro allI impI)
    fix fs'
    assume saved: "savePlanFile rt home fs cwd p md = (Inr (), fs')"
    have read: "readFile fs' (getPlanJsonPath cwd (pf_slug p)) =
                  Inr (JSON_stringify_pretty rt (PlanFile_toJSON rt p))"
      using savePlanFile_result(1,2) [OF saved] by (simp add: readFile_def)
    have loaded: "loadPlanFile rt fs' cwd (pf_slug p) =
        Some (AList.update ''updatedAt''
                (DV (new_Date rt (get_property (JObj kvs) ''updatedAt'')))
                (AList.update ''createdAt''
                   (DV (new_Date rt (get_property (JObj kvs) ''createdAt'')))
                   (object_spread (JObj kvs))))"
      by (simp add: loadPlanFile_def Let_def read parsed)
    from savePlanFile_result(3) [OF saved] loaded
      loaded_object [OF created updated revive_created revive_updated same]
    show "getPlanDirectory cwd \<in> dirs fs' \<and>
            (\<exists>loaded. loadPlanFile rt fs' cwd (pf_slug p) = Some loaded \<and>
               deep_equal loaded (PlanFile_object p))"
      by blast
  qed
next
  show "isValidProjectDirectory home cwd \<and>
          getPlanDirectory cwd \<notin> denied fs \<and>
          getPlanMdPath cwd (pf_slug p) \<notin> denied fs \<and>
          getPlanJsonPath cwd (pf_slug p) \<notin> denied fs \<and>
          CHR ''/'' \<notin> set (pf_slug p) \<longrightarrow>
            (\<exists>fs'. savePlanFile rt home fs cwd p md = (Inr (), fs'))"
    using savePlanFile_succeeds [of home cwd fs p c u rt md] created updated by blast
qed

lemma sample_representable:
  "JSON_parse sample_runtime (JSON_stringify_pretty sample_runtime
      (PlanFile_toJSON sample_runtime sample_plan)) =
     Some (JObj (PlanFile_properties sample_runtime sample_plan))"
  by code_simp

lemma sample_revive:
  "new_Date sample_runtime (Some (JStr (toISOString sample_runtime 1793622896789))) =
     Date 1793622896789"
  "new_Date sample_runtime (Some (JStr (toISOString sample_runtime 1793622900000))) =
     Date 1793622900000"
  by code_simp+

theorem save_load_roundtrip_witness:
  "isValidProjectDirectory ''/home/alice'' ''/srv/project'' \<and>
   dirs empty_filesystem = {} \<and>
   JSON_parse sample_runtime (JSON_stringify_pretty sample_runtime
      (PlanFile_toJSON sample_runtime sample_plan)) =
     Some (JObj (PlanFile_properties sample_runtime sample_plan)) \<and>
   (\<exists>fs'. savePlanFile sample_runtime ''/home/alice'' empty_filesystem ''/srv/project''
             sample_plan None = (Inr (), fs') \<and>
      getPlanDirectory ''/srv/project'' \<in> dirs fs' \<and>
      (\<exists>loaded. loadPlanFile sample_runtime fs' ''/srv/project'' (pf_slug sample_plan) =
                   Some loaded \<and>
         deep_equal loaded (PlanFile_object sample_plan)))"
proof -
  have valid: "isValidProjectDirectory ''/home/alice'' ''/srv/project''"
    by (simp add: isValidProjectDirectory_def replace_backslashes_def)
  have free: "\<And>x. x \<notin> denied empty_filesystem" and nodirs: "dirs empty_filesystem = {}"
    by (simp_all add: empty_filesystem_def)
  have noslash: "CHR ''/'' \<notin> set (pf_slug sample_plan)"
    by (simp add: sample_plan_def)
  have dates: "pf_createdAt sample_plan = Date 1793622896789"
    "pf_updatedAt sample_plan = Date 1793622900000"
    by (simp_all add: sample_plan_def)
  have rep: "\<exists>kvs. JSON_parse sample_runtime (JSON_stringify_pretty sample_runtime
                 (PlanFile_toJSON sample_runtime sample_plan)) = Some (JObj kvs) \<and>
               map_of kvs = map_of (PlanFile_properties sample_runtime sample_plan)"
    using sample_representable by blast
  note t = save_load_roundtrip [OF dates rep sample_revive,
      of "''/home/alice''" empty_filesystem "''/srv/project''" None]
  from t valid free noslash obtain fs' where
    s: "savePlanFile sample_runtime ''/home/alice'' empty_filesystem ''/srv/project''
          sample_plan None = (Inr (), fs')"
    by blast
  with t have "getPlanDirectory ''/srv/project'' \<in> dirs fs' \<and>
      (\<exists>loaded. loadPlanFile sample_runtime fs' ''/srv/project'' (pf_slug sample_plan) =
                   Some loaded \<and>
         deep_equal loaded (PlanFile_object sample_plan))"
    by blast
  with s valid nodirs sample_representable show ?thesis by blast
qed

end
